theory Spec2Isabelle
  imports Complex_Main "HOL-Library.Sublist" "HOL-Library.AList"
begin

section \<open>Errors\<close>

text \<open>
  Every exception the TypeScript code or the JavaScript runtime can raise is a value.
  \<open>Error m\<close> is \<open>new Error(m)\<close> as thrown by \<open>fetchJson\<close>; \<open>FetchFailed\<close> is the
  rejection of \<open>fetch\<close> itself (no HTTP response at all); \<open>SyntaxError\<close> is a body that
  is not JSON.
\<close>

datatype error = TypeError | RangeError | SyntaxError | FetchFailed | Error string

definition bindE :: "error + 'a \<Rightarrow> ('a \<Rightarrow> error + 'b) \<Rightarrow> error + 'b" where
  "bindE m f = (case m of Inl e \<Rightarrow> Inl e | Inr x \<Rightarrow> f x)"

text \<open>A callback applied to each element in turn; the first exception ends the loop.\<close>

fun mapE :: "('a \<Rightarrow> error + 'b) \<Rightarrow> 'a list \<Rightarrow> error + 'b list" where
  "mapE f [] = Inr []"
| "mapE f (x # xs) = bindE (f x) (\<lambda>y. bindE (mapE f xs) (\<lambda>ys. Inr (y # ys)))"

fun filterE :: "('a \<Rightarrow> error + bool) \<Rightarrow> 'a list \<Rightarrow> error + 'a list" where
  "filterE f [] = Inr []"
| "filterE f (x # xs) =
     bindE (f x) (\<lambda>keep. bindE (filterE f xs) (\<lambda>ys. Inr (if keep then x # ys else ys)))"

text \<open>\<open>Array.prototype.some\<close> stops at the first element the callback accepts.\<close>

fun someE :: "('a \<Rightarrow> error + bool) \<Rightarrow> 'a list \<Rightarrow> error + bool" where
  "someE f [] = Inr False"
| "someE f (x # xs) = bindE (f x) (\<lambda>hit. if hit then Inr True else someE f xs)"

section \<open>Numbers and JSON values\<close>

text \<open>
  A JavaScript number is a finite value, \<open>NaN\<close> or one of the two infinities. Finite
  values are rationals and arithmetic on them is exact: the rounding of IEEE doubles and
  the sign of zero are outside this model. Strings are sequences of ASCII characters.
\<close>

datatype jsnum = Fin rat | NaN | PInf | NInf

datatype jsval =
    JUndefined
  | JNull
  | JBool bool
  | JNum jsnum
  | JStr string
  | JArr "jsval list"
  | JObj "(string \<times> jsval) list"

section \<open>Decimal digits and number printing\<close>

text \<open>The decimal digits of an integer that is not negative.\<close>

function digits_of :: "int \<Rightarrow> string" where
  "digits_of n = (if n < 10 then [''0123456789'' ! nat n]
                  else digits_of (n div 10) @ [''0123456789'' ! nat (n mod 10)])"
  by pat_completeness auto
termination
  by (relation "measure nat") auto

declare digits_of.simps [simp del]

definition show_nat :: "nat \<Rightarrow> string" where
  "show_nat n = digits_of (int n)"

text \<open>Truncation toward zero (the integer part of a number).\<close>

definition trunc :: "rat \<Rightarrow> int" where
  "trunc q = (if 0 \<le> q then \<lfloor>q\<rfloor> else \<lceil>q\<rceil>)"

fun frac_digits :: "nat \<Rightarrow> rat \<Rightarrow> string" where
  "frac_digits 0 r = []"
| "frac_digits (Suc n) r =
     (if r = 0 then []
      else let d = \<lfloor>r * 10\<rfloor> in (''0123456789'' ! nat d) # frac_digits n (r * 10 - of_int d))"

text \<open>
  \<open>Number::toString\<close>. A finite value is printed in positional decimal notation, with at
  most twenty digits after the point. The exponent notation JavaScript switches to for
  magnitudes of \<open>10\<^sup>2\<^sup>1\<close> and above or below \<open>10\<^sup>-\<^sup>6\<close>, and the choice of the shortest
  digit string that reads back as the same double, are outside the model.
\<close>

definition num_to_string :: "jsnum \<Rightarrow> string" where
  "num_to_string n =
     (case n of
        NaN \<Rightarrow> ''NaN''
      | PInf \<Rightarrow> ''Infinity''
      | NInf \<Rightarrow> ''-Infinity''
      | Fin q \<Rightarrow>
          (if q < 0 then ''-'' else [])
          @ digits_of \<lfloor>\<bar>q\<bar>\<rfloor>
          @ (if frac \<bar>q\<bar> = 0 then [] else ''.'' @ frac_digits 20 (frac \<bar>q\<bar>)))"

text \<open>
  \<open>Number.prototype.toFixed(f)\<close>: the sign, then the integer nearest to
  \<open>\<bar>x\<bar> \<sqdot> 10\<^sup>f\<close> (the larger one on a tie), padded to at least \<open>f + 1\<close> digits, with a
  point before the last \<open>f\<close> digits. From \<open>10\<^sup>2\<^sup>1\<close> on it is \<open>Number::toString\<close>.
\<close>

definition toFixed :: "nat \<Rightarrow> jsnum \<Rightarrow> string" where
  "toFixed f n =
     (case n of
        NaN \<Rightarrow> ''NaN''
      | PInf \<Rightarrow> ''Infinity''
      | NInf \<Rightarrow> ''-Infinity''
      | Fin q \<Rightarrow>
          if 10 ^ 21 \<le> \<bar>q\<bar> then num_to_string (Fin q)
          else
            let m = digits_of \<lfloor>\<bar>q\<bar> * 10 ^ f + 1 / 2\<rfloor>;
                m' = replicate (Suc f - length m) (CHR ''0'') @ m;
                k = length m'
            in (if q < 0 then ''-'' else [])
               @ take (k - f) m'
               @ (if f = 0 then [] else ''.'' @ drop (k - f) m'))"

section \<open>Arithmetic and comparison of numbers\<close>

fun num_neg :: "jsnum \<Rightarrow> jsnum" where
  "num_neg (Fin q) = Fin (- q)"
| "num_neg NaN = NaN"
| "num_neg PInf = NInf"
| "num_neg NInf = PInf"

fun num_add :: "jsnum \<Rightarrow> jsnum \<Rightarrow> jsnum" where
  "num_add NaN _ = NaN"
| "num_add _ NaN = NaN"
| "num_add (Fin a) (Fin b) = Fin (a + b)"
| "num_add PInf NInf = NaN"
| "num_add NInf PInf = NaN"
| "num_add PInf _ = PInf"
| "num_add NInf _ = NInf"
| "num_add _ PInf = PInf"
| "num_add _ NInf = NInf"

definition num_sub :: "jsnum \<Rightarrow> jsnum \<Rightarrow> jsnum" where
  "num_sub a b = num_add a (num_neg b)"

text \<open>The sign of a number that is not \<open>NaN\<close>: \<open>-1\<close>, \<open>0\<close> or \<open>1\<close>.\<close>

fun num_sgn :: "jsnum \<Rightarrow> int" where
  "num_sgn (Fin q) = (if q < 0 then - 1 else if q = 0 then 0 else 1)"
| "num_sgn PInf = 1"
| "num_sgn NInf = - 1"
| "num_sgn NaN = 0"

definition signed_inf :: "int \<Rightarrow> jsnum" where
  "signed_inf s = (if s < 0 then NInf else PInf)"

fun num_mul :: "jsnum \<Rightarrow> jsnum \<Rightarrow> jsnum" where
  "num_mul NaN _ = NaN"
| "num_mul _ NaN = NaN"
| "num_mul (Fin a) (Fin b) = Fin (a * b)"
| "num_mul a b =
     (if num_sgn a = 0 \<or> num_sgn b = 0 then NaN else signed_inf (num_sgn a * num_sgn b))"

text \<open>Division; a zero divisor is the positive zero.\<close>

fun num_div :: "jsnum \<Rightarrow> jsnum \<Rightarrow> jsnum" where
  "num_div NaN _ = NaN"
| "num_div _ NaN = NaN"
| "num_div (Fin a) (Fin b) =
     (if b = 0 then (if a = 0 then NaN else signed_inf (num_sgn (Fin a))) else Fin (a / b))"
| "num_div (Fin a) _ = Fin 0"
| "num_div a (Fin b) = signed_inf (num_sgn a * (if b < 0 then - 1 else 1))"
| "num_div _ _ = NaN"

fun num_lt :: "jsnum \<Rightarrow> jsnum \<Rightarrow> bool" where
  "num_lt NaN _ = False"
| "num_lt _ NaN = False"
| "num_lt (Fin a) (Fin b) = (a < b)"
| "num_lt NInf NInf = False"
| "num_lt NInf _ = True"
| "num_lt PInf _ = False"
| "num_lt (Fin a) PInf = True"
| "num_lt (Fin a) NInf = False"

definition num_gt :: "jsnum \<Rightarrow> jsnum \<Rightarrow> bool" where
  "num_gt a b = num_lt b a"

text \<open>\<open>a >= b\<close> is \<open>!(a < b)\<close> unless one side is \<open>NaN\<close>.\<close>

definition num_ge :: "jsnum \<Rightarrow> jsnum \<Rightarrow> bool" where
  "num_ge a b \<longleftrightarrow> a \<noteq> NaN \<and> b \<noteq> NaN \<and> \<not> num_lt a b"

text \<open>\<open>Math.min\<close> and \<open>Math.max\<close> of two numbers.\<close>

definition math_min :: "jsnum \<Rightarrow> jsnum \<Rightarrow> jsnum" where
  "math_min a b = (if a = NaN \<or> b = NaN then NaN else if num_lt b a then b else a)"

definition math_max :: "jsnum \<Rightarrow> jsnum \<Rightarrow> jsnum" where
  "math_max a b = (if a = NaN \<or> b = NaN then NaN else if num_lt a b then b else a)"

section \<open>Conversions\<close>

definition nullish :: "jsval \<Rightarrow> bool" where
  "nullish v \<longleftrightarrow> v = JUndefined \<or> v = JNull"

fun truthy :: "jsval \<Rightarrow> bool" where
  "truthy JUndefined = False"
| "truthy JNull = False"
| "truthy (JBool b) = b"
| "truthy (JNum (Fin q)) = (q \<noteq> 0)"
| "truthy (JNum NaN) = False"
| "truthy (JNum PInf) = True"
| "truthy (JNum NInf) = True"
| "truthy (JStr s) = (s \<noteq> [])"
| "truthy (JArr xs) = True"
| "truthy (JObj kvs) = True"

text \<open>\<open>a || b\<close>\<close>

definition js_or :: "jsval \<Rightarrow> jsval \<Rightarrow> jsval" where
  "js_or a b = (if truthy a then a else b)"

fun join_comma :: "string list \<Rightarrow> string" where
  "join_comma [] = []"
| "join_comma [s] = s"
| "join_comma (s # t # ss) = s @ '','' @ join_comma (t # ss)"

text \<open>\<open>ToString\<close>; an array is its elements joined by commas, \<open>null\<close> and \<open>undefined\<close>
  elements being empty.\<close>

fun to_string :: "jsval \<Rightarrow> string" where
  "to_string JUndefined = ''undefined''"
| "to_string JNull = ''null''"
| "to_string (JBool b) = (if b then ''true'' else ''false'')"
| "to_string (JNum n) = num_to_string n"
| "to_string (JStr s) = s"
| "to_string (JArr xs) =
     join_comma (map (\<lambda>x. if x = JUndefined \<or> x = JNull then [] else to_string x) xs)"
| "to_string (JObj kvs) = ''[object Object]''"

text \<open>White space and line terminators (the ASCII ones).\<close>

definition is_space :: "char \<Rightarrow> bool" where
  "is_space c \<longleftrightarrow> c \<in> set [CHR 0x09, CHR 0x0A, CHR 0x0B, CHR 0x0C, CHR 0x0D, CHR '' '']"

definition trim_start :: "string \<Rightarrow> string" where
  "trim_start s = dropWhile is_space s"

definition trim :: "string \<Rightarrow> string" where
  "trim s = rev (dropWhile is_space (rev (dropWhile is_space s)))"

text \<open>The value of a digit in a radix up to 16, if it is one.\<close>

definition digit_val :: "nat \<Rightarrow> char \<Rightarrow> nat option" where
  "digit_val radix c =
     (case map_of (zip ''0123456789abcdef'' [0 ..< 16] @ zip ''ABCDEF'' [10 ..< 16]) c of
        None \<Rightarrow> None
      | Some d \<Rightarrow> if d < radix then Some d else None)"

definition is_digit :: "nat \<Rightarrow> char \<Rightarrow> bool" where
  "is_digit radix c \<longleftrightarrow> digit_val radix c \<noteq> None"

definition digits_value :: "nat \<Rightarrow> string \<Rightarrow> int" where
  "digits_value radix ds =
     foldl (\<lambda>acc c. acc * int radix + (case digit_val radix c of Some d \<Rightarrow> int d | None \<Rightarrow> 0))
       0 ds"

text \<open>\<open>StrUnsignedDecimalLiteral\<close> without \<open>Infinity\<close>: digits, an optional fraction and
  an optional exponent, at least one digit in the mantissa.\<close>

definition exponent_value :: "string \<Rightarrow> int option" where
  "exponent_value e =
     (let (neg, ds) = (case e of
                         c # r \<Rightarrow> if c = CHR ''-'' then (True, r)
                                  else if c = CHR ''+'' then (False, r) else (False, e)
                       | [] \<Rightarrow> (False, e))
      in if ds \<noteq> [] \<and> list_all (is_digit 10) ds
         then Some (if neg then - digits_value 10 ds else digits_value 10 ds)
         else None)"

definition mantissa_value :: "string \<Rightarrow> rat option" where
  "mantissa_value m =
     (let ip = takeWhile (is_digit 10) m; r = dropWhile (is_digit 10) m
      in case r of
           [] \<Rightarrow> if ip = [] then None else Some (of_int (digits_value 10 ip))
         | c # fp \<Rightarrow>
             if c = CHR ''.'' \<and> list_all (is_digit 10) fp \<and> (ip \<noteq> [] \<or> fp \<noteq> [])
             then Some (of_int (digits_value 10 ip)
                        + of_int (digits_value 10 fp) / 10 ^ length fp)
             else None)"

definition unsigned_decimal :: "string \<Rightarrow> rat option" where
  "unsigned_decimal u =
     (let m = takeWhile (\<lambda>c. c \<noteq> CHR ''e'' \<and> c \<noteq> CHR ''E'') u;
          r = dropWhile (\<lambda>c. c \<noteq> CHR ''e'' \<and> c \<noteq> CHR ''E'') u
      in case mantissa_value m of
           None \<Rightarrow> None
         | Some q \<Rightarrow>
             (case r of
                [] \<Rightarrow> Some q
              | _ # e \<Rightarrow>
                  (case exponent_value e of
                     None \<Rightarrow> None
                   | Some x \<Rightarrow> Some (if 0 \<le> x then q * 10 ^ nat x else q / 10 ^ nat (- x)))))"

definition radix_literal :: "string \<Rightarrow> jsnum option" where
  "radix_literal t =
     (case t of
        z # p # ds \<Rightarrow>
          if z \<noteq> CHR ''0'' then None
          else
            (case map_of [(CHR ''x'', 16), (CHR ''X'', 16), (CHR ''o'', 8), (CHR ''O'', 8),
                          (CHR ''b'', 2), (CHR ''B'', 2)] p of
               None \<Rightarrow> None
             | Some radix \<Rightarrow>
                 Some (if ds \<noteq> [] \<and> list_all (is_digit radix) ds
                       then Fin (of_int (digits_value radix ds)) else NaN))
      | _ \<Rightarrow> None)"

text \<open>\<open>StringToNumber\<close>: the empty string is \<open>0\<close>, what is no numeric literal is \<open>NaN\<close>.\<close>

definition str_to_num :: "string \<Rightarrow> jsnum" where
  "str_to_num s =
     (let t = trim s in
      if t = [] then Fin 0
      else
        (case radix_literal t of
           Some n \<Rightarrow> n
         | None \<Rightarrow>
             (let (neg, u) = (case t of
                                c # r \<Rightarrow> if c = CHR ''-'' then (True, r)
                                         else if c = CHR ''+'' then (False, r) else (False, t)
                              | [] \<Rightarrow> (False, t))
              in if u = ''Infinity'' then (if neg then NInf else PInf)
                 else (case unsigned_decimal u of
                         None \<Rightarrow> NaN
                       | Some q \<Rightarrow> Fin (if neg then - q else q)))))"

text \<open>\<open>ToNumber\<close>; arrays and objects go through their string.\<close>

fun to_number :: "jsval \<Rightarrow> jsnum" where
  "to_number JUndefined = NaN"
| "to_number JNull = Fin 0"
| "to_number (JBool b) = Fin (if b then 1 else 0)"
| "to_number (JNum n) = n"
| "to_number (JStr s) = str_to_num s"
| "to_number (JArr xs) = str_to_num (to_string (JArr xs))"
| "to_number (JObj kvs) = str_to_num (to_string (JObj kvs))"

text \<open>\<open>parseInt(v)\<close>: the longest integer prefix of the string of \<open>v\<close>, in radix 16 after
  \<open>0x\<close> and in radix 10 otherwise.\<close>

definition js_parseInt :: "jsval \<Rightarrow> jsnum" where
  "js_parseInt v =
     (let t = trim_start (to_string v);
          (neg, u) = (case t of
                        c # r \<Rightarrow> if c = CHR ''-'' then (True, r)
                                 else if c = CHR ''+'' then (False, r) else (False, t)
                      | [] \<Rightarrow> (False, t));
          (radix, w) = (case u of
                          z # p # r \<Rightarrow> if z = CHR ''0'' \<and> (p = CHR ''x'' \<or> p = CHR ''X'')
                                       then (16, r) else (10, u)
                        | _ \<Rightarrow> (10, u));
          ds = takeWhile (is_digit radix) w
      in if ds = [] then NaN
         else Fin (if neg then - of_int (digits_value radix ds) else of_int (digits_value radix ds)))"

text \<open>The operators of the code: \<open>a - b\<close>, \<open>a * b\<close>, \<open>a / b\<close>, and \<open>a > b\<close>, \<open>a >= b\<close>
  with a number on the right (so the comparison is numeric).\<close>

definition js_sub :: "jsval \<Rightarrow> jsval \<Rightarrow> jsnum" where
  "js_sub a b = num_sub (to_number a) (to_number b)"

definition js_gt :: "jsval \<Rightarrow> jsnum \<Rightarrow> bool" where
  "js_gt a n = num_gt (to_number a) n"

definition js_ge :: "jsval \<Rightarrow> jsnum \<Rightarrow> bool" where
  "js_ge a n = num_ge (to_number a) n"

text \<open>\<open>a + s\<close> for a string \<open>s\<close>: concatenation with the string of \<open>a\<close>.\<close>

definition js_plus_str :: "jsval \<Rightarrow> string \<Rightarrow> jsval" where
  "js_plus_str a s = JStr (to_string a @ s)"

section \<open>Property access\<close>

text \<open>
  Reading the property \<open>k\<close> of a value that is neither \<open>null\<close> nor \<open>undefined\<close>. The names
  the code reads are field names of the upstream data and \<open>length\<close>; none of them is an
  array index or a member of a built-in prototype.
\<close>

fun own_prop :: "jsval \<Rightarrow> string \<Rightarrow> jsval" where
  "own_prop (JObj kvs) k = (case map_of kvs k of Some x \<Rightarrow> x | None \<Rightarrow> JUndefined)"
| "own_prop (JArr xs) k = (if k = ''length'' then JNum (Fin (of_nat (length xs))) else JUndefined)"
| "own_prop (JStr s) k = (if k = ''length'' then JNum (Fin (of_nat (length s))) else JUndefined)"
| "own_prop _ k = JUndefined"

text \<open>\<open>v.k\<close> raises on \<open>null\<close> and \<open>undefined\<close>; \<open>v?.k\<close> is \<open>undefined\<close> there.\<close>

definition js_get :: "jsval \<Rightarrow> string \<Rightarrow> error + jsval" where
  "js_get v k = (if nullish v then Inl TypeError else Inr (own_prop v k))"

definition js_get_opt :: "jsval \<Rightarrow> string \<Rightarrow> jsval" where
  "js_get_opt v k = (if nullish v then JUndefined else own_prop v k)"

definition nat_index :: "jsnum \<Rightarrow> nat option" where
  "nat_index n = (case n of Fin q \<Rightarrow> if 0 \<le> q \<and> of_int \<lfloor>q\<rfloor> = q then Some (nat \<lfloor>q\<rfloor>) else None
                  | _ \<Rightarrow> None)"

text \<open>\<open>v[n]\<close> for a number \<open>n\<close>, on a value that is neither \<open>null\<close> nor \<open>undefined\<close>.\<close>

fun own_index :: "jsval \<Rightarrow> jsnum \<Rightarrow> jsval" where
  "own_index (JArr xs) n =
     (case nat_index n of
        Some i \<Rightarrow> if i < length xs then xs ! i else JUndefined
      | None \<Rightarrow> JUndefined)"
| "own_index (JStr s) n =
     (case nat_index n of
        Some i \<Rightarrow> if i < length s then JStr [s ! i] else JUndefined
      | None \<Rightarrow> JUndefined)"
| "own_index (JObj kvs) n = own_prop (JObj kvs) (num_to_string n)"
| "own_index _ n = JUndefined"

definition js_index :: "jsval \<Rightarrow> jsnum \<Rightarrow> error + jsval" where
  "js_index v n = (if nullish v then Inl TypeError else Inr (own_index v n))"

definition js_index_opt :: "jsval \<Rightarrow> jsnum \<Rightarrow> jsval" where
  "js_index_opt v n = (if nullish v then JUndefined else own_index v n)"

text \<open>An object literal: the fields are evaluated in order, the first exception wins.\<close>

definition js_object :: "(string \<times> (error + jsval)) list \<Rightarrow> error + jsval" where
  "js_object fields =
     bindE (mapE (\<lambda>(k, e). bindE e (\<lambda>v. Inr (k, v))) fields) (\<lambda>kvs. Inr (JObj kvs))"

section \<open>Methods of arrays, strings and numbers\<close>

text \<open>
  A method that only arrays have (\<open>map\<close>, \<open>filter\<close>, \<open>sort\<close>, \<open>some\<close>): on any other
  receiver the property is not a function and the call raises.
\<close>

definition as_array :: "jsval \<Rightarrow> error + jsval list" where
  "as_array v = (case v of JArr xs \<Rightarrow> Inr xs | _ \<Rightarrow> Inl TypeError)"

text \<open>A relative index of \<open>slice\<close>, clamped into \<open>0 .. len\<close>.\<close>

definition rel_index :: "nat \<Rightarrow> jsnum \<Rightarrow> nat" where
  "rel_index len n =
     (case n of
        NaN \<Rightarrow> 0
      | NInf \<Rightarrow> 0
      | PInf \<Rightarrow> len
      | Fin q \<Rightarrow> if trunc q < 0 then nat (max (int len + trunc q) 0) else min (nat (trunc q)) len)"

text \<open>\<open>xs.slice(start, end)\<close>; \<open>end\<close> is \<open>None\<close> when the argument is left out.\<close>

definition slice_list :: "jsnum \<Rightarrow> jsnum option \<Rightarrow> 'a list \<Rightarrow> 'a list" where
  "slice_list start end xs =
     (let len = length xs;
          k = rel_index len start;
          final = (case end of None \<Rightarrow> len | Some e \<Rightarrow> rel_index len e)
      in take (final - k) (drop k xs))"

text \<open>\<open>v.slice(start, end)\<close>: arrays and strings have the method.\<close>

definition js_slice :: "jsnum \<Rightarrow> jsnum option \<Rightarrow> jsval \<Rightarrow> error + jsval" where
  "js_slice start end v =
     (case v of
        JArr xs \<Rightarrow> Inr (JArr (slice_list start end xs))
      | JStr s \<Rightarrow> Inr (JStr (slice_list start end s))
      | _ \<Rightarrow> Inl TypeError)"

text \<open>\<open>v?.slice(start, end)\<close>\<close>

definition js_slice_opt :: "jsnum \<Rightarrow> jsnum option \<Rightarrow> jsval \<Rightarrow> error + jsval" where
  "js_slice_opt start end v = (if nullish v then Inr JUndefined else js_slice start end v)"

definition upper_char :: "char \<Rightarrow> char" where
  "upper_char c =
     (case map_of (zip ''abcdefghijklmnopqrstuvwxyz'' ''ABCDEFGHIJKLMNOPQRSTUVWXYZ'') c of
        Some u \<Rightarrow> u | None \<Rightarrow> c)"

definition lower_char :: "char \<Rightarrow> char" where
  "lower_char c =
     (case map_of (zip ''ABCDEFGHIJKLMNOPQRSTUVWXYZ'' ''abcdefghijklmnopqrstuvwxyz'') c of
        Some l \<Rightarrow> l | None \<Rightarrow> c)"

text \<open>\<open>v.toUpperCase()\<close> and \<open>v.toLowerCase()\<close>: only strings have the methods.\<close>

definition toUpperCase :: "jsval \<Rightarrow> error + jsval" where
  "toUpperCase v = (case v of JStr s \<Rightarrow> Inr (JStr (map upper_char s)) | _ \<Rightarrow> Inl TypeError)"

definition toLowerCase :: "jsval \<Rightarrow> error + jsval" where
  "toLowerCase v = (case v of JStr s \<Rightarrow> Inr (JStr (map lower_char s)) | _ \<Rightarrow> Inl TypeError)"

definition toUpperCase_opt :: "jsval \<Rightarrow> error + jsval" where
  "toUpperCase_opt v = (if nullish v then Inr JUndefined else toUpperCase v)"

definition toLowerCase_opt :: "jsval \<Rightarrow> error + jsval" where
  "toLowerCase_opt v = (if nullish v then Inr JUndefined else toLowerCase v)"

text \<open>\<open>s.includes(sub)\<close> on strings.\<close>

fun includes_str :: "string \<Rightarrow> string \<Rightarrow> bool" where
  "includes_str [] sub = (sub = [])"
| "includes_str (c # cs) sub = (prefix sub (c # cs) \<or> includes_str cs sub)"

text \<open>\<open>v.toFixed(2)\<close>: only numbers have the method.\<close>

definition call_toFixed :: "jsval \<Rightarrow> error + jsval" where
  "call_toFixed v = (case v of JNum n \<Rightarrow> Inr (JStr (toFixed 2 n)) | _ \<Rightarrow> Inl TypeError)"

text \<open>The idiom \<open>v?.toFixed(2) + '%'\<close> of the percentage fields.\<close>

definition pct :: "jsval \<Rightarrow> error + jsval" where
  "pct v =
     bindE (if nullish v then Inr JUndefined else call_toFixed v)
       (\<lambda>t. Inr (js_plus_str t ''%''))"

section \<open>Sorting\<close>

text \<open>
  \<open>Array.prototype.sort\<close> with a comparator: a stable sort, written here as insertion
  from the right. An element moves behind its neighbour when the comparator is positive;
  \<open>NaN\<close> counts as zero. For a consistent comparator every stable sort gives this result;
  for an inconsistent one the order is left to the implementation by the language, and this
  is one such order. An exception of the comparator ends the sort.
\<close>

fun insert_by :: "('a \<Rightarrow> 'a \<Rightarrow> error + jsnum) \<Rightarrow> 'a \<Rightarrow> 'a list \<Rightarrow> error + 'a list" where
  "insert_by cmp x [] = Inr [x]"
| "insert_by cmp x (y # ys) =
     bindE (cmp x y)
       (\<lambda>v. if num_gt v (Fin 0)
            then bindE (insert_by cmp x ys) (\<lambda>zs. Inr (y # zs))
            else Inr (x # y # ys))"

fun sort_by :: "('a \<Rightarrow> 'a \<Rightarrow> error + jsnum) \<Rightarrow> 'a list \<Rightarrow> error + 'a list" where
  "sort_by cmp [] = Inr []"
| "sort_by cmp (x # xs) = bindE (sort_by cmp xs) (insert_by cmp x)"

text \<open>The comparator \<open>(a, b) => (b.k || 0) - (a.k || 0)\<close>: descending by \<open>k\<close>.\<close>

definition desc_by :: "string \<Rightarrow> jsval \<Rightarrow> jsval \<Rightarrow> error + jsnum" where
  "desc_by k a b =
     bindE (js_get b k) (\<lambda>bk.
     bindE (js_get a k) (\<lambda>ak.
       Inr (js_sub (js_or bk (JNum (Fin 0))) (js_or ak (JNum (Fin 0))))))"

section \<open>Dates\<close>

text \<open>
  \<open>TimeClip\<close>: the time value of \<open>new Date(n)\<close>, in milliseconds since the epoch; \<open>None\<close>
  is the invalid date.
\<close>

definition time_clip :: "jsnum \<Rightarrow> int option" where
  "time_clip n =
     (case n of
        Fin q \<Rightarrow> if 8640000000000000 < \<bar>q\<bar> then None else Some (trunc q)
      | _ \<Rightarrow> None)"

definition pad_left :: "nat \<Rightarrow> string \<Rightarrow> string" where
  "pad_left w s = replicate (w - length s) (CHR ''0'') @ s"

text \<open>The civil date (year, month, day) of a day number counted from 1970-01-01.\<close>

definition civil_from_days :: "int \<Rightarrow> int \<times> int \<times> int" where
  "civil_from_days z0 =
     (let z = z0 + 719468;
          era = z div 146097;
          doe = z - era * 146097;
          yoe = (doe - doe div 1460 + doe div 36524 - doe div 146096) div 365;
          y = yoe + era * 400;
          doy = doe - (365 * yoe + yoe div 4 - yoe div 100);
          mp = (5 * doy + 2) div 153;
          d = doy - (153 * mp + 2) div 5 + 1;
          m = (if mp < 10 then mp + 3 else mp - 9)
      in (if m \<le> 2 then y + 1 else y, m, d))"

definition iso_year :: "int \<Rightarrow> string" where
  "iso_year y =
     (if 0 \<le> y \<and> y \<le> 9999 then pad_left 4 (digits_of y)
      else (if y < 0 then ''-'' else ''+'') @ pad_left 6 (digits_of \<bar>y\<bar>))"

text \<open>\<open>Date.prototype.toISOString\<close> of a valid time value.\<close>

definition iso_string :: "int \<Rightarrow> string" where
  "iso_string t =
     (let (y, m, d) = civil_from_days (t div 86400000);
          ms = t mod 86400000
      in iso_year y @ ''-'' @ pad_left 2 (digits_of m) @ ''-'' @ pad_left 2 (digits_of d)
         @ ''T'' @ pad_left 2 (digits_of (ms div 3600000))
         @ '':'' @ pad_left 2 (digits_of (ms div 60000 mod 60))
         @ '':'' @ pad_left 2 (digits_of (ms div 1000 mod 60))
         @ ''.'' @ pad_left 3 (digits_of (ms mod 1000)) @ ''Z'')"

text \<open>\<open>new Date(n).toISOString()\<close> for a number \<open>n\<close>: an invalid date raises.\<close>

definition toISOString :: "jsnum \<Rightarrow> error + string" where
  "toISOString n = (case time_clip n of None \<Rightarrow> Inl RangeError | Some t \<Rightarrow> Inr (iso_string t))"

text \<open>\<open>s.split('T')[0]\<close>: what stands before the first \<open>T\<close>.\<close>

definition before_T :: "string \<Rightarrow> string" where
  "before_T s = takeWhile (\<lambda>c. c \<noteq> CHR ''T'') s"

text \<open>\<open>new Date(n).toISOString().split('T')[0]\<close>\<close>

definition iso_date :: "jsnum \<Rightarrow> error + jsval" where
  "iso_date n = bindE (toISOString n) (\<lambda>s. Inr (JStr (before_T s)))"

section \<open>URL encoding\<close>

definition is_alnum :: "char \<Rightarrow> bool" where
  "is_alnum c \<longleftrightarrow>
     c \<in> set ''abcdefghijklmnopqrstuvwxyzABCDEFGHIJKLMNOPQRSTUVWXYZ0123456789''"

definition hex_byte :: "char \<Rightarrow> string" where
  "hex_byte c = [''0123456789ABCDEF'' ! ((of_char c :: nat) div 16),
                 ''0123456789ABCDEF'' ! ((of_char c :: nat) mod 16)]"

text \<open>\<open>encodeURIComponent\<close> leaves letters, digits and \<open>- _ . ! ~ * ' ( )\<close> alone and
  writes every other byte as \<open>%XX\<close>.\<close>

definition uri_unreserved :: "char \<Rightarrow> bool" where
  "uri_unreserved c \<longleftrightarrow> is_alnum c \<or> c \<in> set [CHR ''-'', CHR ''_'', CHR ''.'', CHR ''!'',
     CHR ''~'', CHR ''*'', CHR 0x27, CHR ''('', CHR '')'']"

definition encodeURIComponent :: "string \<Rightarrow> string" where
  "encodeURIComponent s =
     concat (map (\<lambda>c. if uri_unreserved c then [c] else CHR ''%'' # hex_byte c) s)"

text \<open>The serialisation of \<open>URLSearchParams\<close>: letters, digits and \<open>* - . _\<close> stay, a space
  becomes \<open>+\<close>, every other byte is written as \<open>%XX\<close>.\<close>

definition form_encode :: "string \<Rightarrow> string" where
  "form_encode s =
     concat (map (\<lambda>c. if is_alnum c \<or> c \<in> set [CHR ''*'', CHR ''-'', CHR ''.'', CHR ''_''] then [c]
                       else if c = CHR '' '' then ''+''
                       else CHR ''%'' # hex_byte c) s)"

fun join_with :: "string \<Rightarrow> string list \<Rightarrow> string" where
  "join_with sep [] = []"
| "join_with sep [s] = s"
| "join_with sep (s # t # ss) = s @ sep @ join_with sep (t # ss)"

definition URLSearchParams :: "(string \<times> string) list \<Rightarrow> string" where
  "URLSearchParams ps = join_with ''&'' (map (\<lambda>(k, v). form_encode k @ ''='' @ form_encode v) ps)"

definition string_of_bool :: "bool \<Rightarrow> string" where
  "string_of_bool b = (if b then ''true'' else ''false'')"

section \<open>The fetch layer (api.ts)\<close>

definition COINGECKO_BASE :: string where
  "COINGECKO_BASE = ''https://api.coingecko.com/api/v3''"

definition DEFILLAMA_BASE :: string where
  "DEFILLAMA_BASE = ''https://api.llama.fi''"

record ApiResponse =
  data :: jsval
  url :: string

text \<open>
  What the network answers to a GET: nothing (\<open>fetch\<close> rejects), or a response with its
  status, its status text and its body parsed as JSON (\<open>None\<close> when it does not parse).
\<close>

datatype http_response = NoResponse | Response nat string "jsval option"

type_synonym network = "string \<Rightarrow> http_response"

definition response_ok :: "nat \<Rightarrow> bool" where
  "response_ok status \<longleftrightarrow> 200 \<le> status \<and> status \<le> 299"

definition rate_limit_message :: string where
  "rate_limit_message = ''Rate limited by API. Please wait a moment and try again.''"

definition fetchJson :: "network \<Rightarrow> string \<Rightarrow> error + ApiResponse" where
  "fetchJson net u =
     (case net u of
        NoResponse \<Rightarrow> Inl FetchFailed
      | Response status statusText body \<Rightarrow>
          if \<not> response_ok status then
            (if status = 429 then Inl (Error rate_limit_message)
             else Inl (Error (''API request failed: '' @ show_nat status @ '' '' @ statusText)))
          else (case body of
                  None \<Rightarrow> Inl SyntaxError
                | Some d \<Rightarrow> Inr \<lparr>data = d, url = u\<rparr>))"

subsection \<open>CoinGecko\<close>

definition searchTokens_url :: "string \<Rightarrow> string" where
  "searchTokens_url query = COINGECKO_BASE @ ''/search?query='' @ encodeURIComponent query"

definition searchTokens :: "network \<Rightarrow> string \<Rightarrow> error + ApiResponse" where
  "searchTokens net query = fetchJson net (searchTokens_url query)"

text \<open>The five options of \<open>getTokenInfo\<close>, each \<open>None\<close> when left out.\<close>

definition getTokenInfo_url ::
  "string \<Rightarrow> bool option \<Rightarrow> bool option \<Rightarrow> bool option \<Rightarrow> bool option \<Rightarrow> bool option \<Rightarrow> string" where
  "getTokenInfo_url token_id localization tickers market_data community_data developer_data =
     COINGECKO_BASE @ ''/coins/'' @ encodeURIComponent token_id @ ''?''
     @ URLSearchParams
         [(''localization'', string_of_bool (case localization of Some b \<Rightarrow> b | None \<Rightarrow> False)),
          (''tickers'', string_of_bool (case tickers of Some b \<Rightarrow> b | None \<Rightarrow> False)),
          (''market_data'', string_of_bool (case market_data of Some b \<Rightarrow> b | None \<Rightarrow> True)),
          (''community_data'', string_of_bool (case community_data of Some b \<Rightarrow> b | None \<Rightarrow> False)),
          (''developer_data'', string_of_bool (case developer_data of Some b \<Rightarrow> b | None \<Rightarrow> False))]"

definition getTokenInfo ::
  "network \<Rightarrow> string \<Rightarrow> bool option \<Rightarrow> bool option \<Rightarrow> bool option \<Rightarrow> bool option \<Rightarrow> bool option
     \<Rightarrow> error + ApiResponse" where
  "getTokenInfo net token_id localization tickers market_data community_data developer_data =
     fetchJson net
       (getTokenInfo_url token_id localization tickers market_data community_data developer_data)"

definition getTokenPrice_url ::
  "string list \<Rightarrow> string list \<Rightarrow> bool option \<Rightarrow> bool option \<Rightarrow> bool option \<Rightarrow> string" where
  "getTokenPrice_url ids vsCurrencies include_market_cap include_24hr_vol include_24hr_change =
     COINGECKO_BASE @ ''/simple/price?''
     @ URLSearchParams
         [(''ids'', join_with '','' ids),
          (''vs_currencies'', join_with '','' vsCurrencies),
          (''include_market_cap'',
             string_of_bool (case include_market_cap of Some b \<Rightarrow> b | None \<Rightarrow> True)),
          (''include_24hr_vol'',
             string_of_bool (case include_24hr_vol of Some b \<Rightarrow> b | None \<Rightarrow> True)),
          (''include_24hr_change'',
             string_of_bool (case include_24hr_change of Some b \<Rightarrow> b | None \<Rightarrow> True))]"

definition getTokenPrice ::
  "network \<Rightarrow> string list \<Rightarrow> string list \<Rightarrow> bool option \<Rightarrow> bool option \<Rightarrow> bool option
     \<Rightarrow> error + ApiResponse" where
  "getTokenPrice net ids vsCurrencies include_market_cap include_24hr_vol include_24hr_change =
     fetchJson net
       (getTokenPrice_url ids vsCurrencies include_market_cap include_24hr_vol include_24hr_change)"

definition getTokenOHLC_url :: "string \<Rightarrow> string \<Rightarrow> jsnum \<Rightarrow> string" where
  "getTokenOHLC_url token_id vsCurrency days =
     COINGECKO_BASE @ ''/coins/'' @ encodeURIComponent token_id @ ''/ohlc?vs_currency='' @ vsCurrency
     @ ''&days='' @ num_to_string days"

definition getTokenOHLC :: "network \<Rightarrow> string \<Rightarrow> string \<Rightarrow> jsnum \<Rightarrow> error + ApiResponse" where
  "getTokenOHLC net token_id vsCurrency days = fetchJson net (getTokenOHLC_url token_id vsCurrency days)"

text \<open>The \<open>days\<close> of the market chart: a number or the word \<open>max\<close>.\<close>

datatype days_arg = Days jsnum | DaysMax

definition days_string :: "days_arg \<Rightarrow> string" where
  "days_string d = (case d of Days n \<Rightarrow> num_to_string n | DaysMax \<Rightarrow> ''max'')"

definition getTokenMarketChart_url :: "string \<Rightarrow> string \<Rightarrow> days_arg \<Rightarrow> string" where
  "getTokenMarketChart_url token_id vsCurrency days =
     COINGECKO_BASE @ ''/coins/'' @ encodeURIComponent token_id @ ''/market_chart?vs_currency=''
     @ vsCurrency @ ''&days='' @ days_string days"

definition getTokenMarketChart ::
  "network \<Rightarrow> string \<Rightarrow> string \<Rightarrow> days_arg \<Rightarrow> error + ApiResponse" where
  "getTokenMarketChart net token_id vsCurrency days =
     fetchJson net (getTokenMarketChart_url token_id vsCurrency days)"

definition getTrendingTokens_url :: string where
  "getTrendingTokens_url = COINGECKO_BASE @ ''/search/trending''"

definition getTrendingTokens :: "network \<Rightarrow> error + ApiResponse" where
  "getTrendingTokens net = fetchJson net getTrendingTokens_url"

definition getGlobalMarketData_url :: string where
  "getGlobalMarketData_url = COINGECKO_BASE @ ''/global''"

definition getGlobalMarketData :: "network \<Rightarrow> error + ApiResponse" where
  "getGlobalMarketData net = fetchJson net getGlobalMarketData_url"

definition getTopCoins_url :: "string \<Rightarrow> jsnum \<Rightarrow> jsnum \<Rightarrow> string \<Rightarrow> string" where
  "getTopCoins_url vsCurrency perPage page order =
     COINGECKO_BASE @ ''/coins/markets?''
     @ URLSearchParams
         [(''vs_currency'', vsCurrency),
          (''order'', order),
          (''per_page'', num_to_string perPage),
          (''page'', num_to_string page),
          (''sparkline'', ''false''),
          (''price_change_percentage'', ''1h,24h,7d,30d'')]"

definition getTopCoins :: "network \<Rightarrow> string \<Rightarrow> jsnum \<Rightarrow> jsnum \<Rightarrow> string \<Rightarrow> error + ApiResponse" where
  "getTopCoins net vsCurrency perPage page order =
     fetchJson net (getTopCoins_url vsCurrency perPage page order)"

definition getCategories_url :: string where
  "getCategories_url = COINGECKO_BASE @ ''/coins/categories''"

definition getCategories :: "network \<Rightarrow> error + ApiResponse" where
  "getCategories net = fetchJson net getCategories_url"

definition getCategoryCoins_url :: "string \<Rightarrow> string \<Rightarrow> string" where
  "getCategoryCoins_url categoryId vsCurrency =
     COINGECKO_BASE @ ''/coins/markets?''
     @ URLSearchParams
         [(''vs_currency'', vsCurrency),
          (''category'', categoryId),
          (''order'', ''market_cap_desc''),
          (''per_page'', ''50''),
          (''page'', ''1''),
          (''sparkline'', ''false'')]"

definition getCategoryCoins :: "network \<Rightarrow> string \<Rightarrow> string \<Rightarrow> error + ApiResponse" where
  "getCategoryCoins net categoryId vsCurrency =
     fetchJson net (getCategoryCoins_url categoryId vsCurrency)"

definition getExchanges_url :: "jsnum \<Rightarrow> string" where
  "getExchanges_url perPage = COINGECKO_BASE @ ''/exchanges?per_page='' @ num_to_string perPage"

definition getExchanges :: "network \<Rightarrow> jsnum \<Rightarrow> error + ApiResponse" where
  "getExchanges net perPage = fetchJson net (getExchanges_url perPage)"

definition getFearGreedIndex_url :: string where
  "getFearGreedIndex_url = ''https://api.alternative.me/fng/?limit=10''"

definition getFearGreedIndex :: "network \<Rightarrow> error + ApiResponse" where
  "getFearGreedIndex net = fetchJson net getFearGreedIndex_url"

subsection \<open>DeFiLlama\<close>

definition getDefiProtocols_url :: string where
  "getDefiProtocols_url = DEFILLAMA_BASE @ ''/protocols''"

definition getDefiProtocols :: "network \<Rightarrow> error + ApiResponse" where
  "getDefiProtocols net = fetchJson net getDefiProtocols_url"

definition getProtocolTVL_url :: "string \<Rightarrow> string" where
  "getProtocolTVL_url protocol = DEFILLAMA_BASE @ ''/protocol/'' @ encodeURIComponent protocol"

definition getProtocolTVL :: "network \<Rightarrow> string \<Rightarrow> error + ApiResponse" where
  "getProtocolTVL net protocol = fetchJson net (getProtocolTVL_url protocol)"

definition getChainsTVL_url :: string where
  "getChainsTVL_url = DEFILLAMA_BASE @ ''/v2/chains''"

definition getChainsTVL :: "network \<Rightarrow> error + ApiResponse" where
  "getChainsTVL net = fetchJson net getChainsTVL_url"

definition getChainTVLHistory_url :: "string \<Rightarrow> string" where
  "getChainTVLHistory_url chain =
     DEFILLAMA_BASE @ ''/v2/historicalChainTvl/'' @ encodeURIComponent chain"

definition getChainTVLHistory :: "network \<Rightarrow> string \<Rightarrow> error + ApiResponse" where
  "getChainTVLHistory net chain = fetchJson net (getChainTVLHistory_url chain)"

definition getYieldPools_url :: string where
  "getYieldPools_url = DEFILLAMA_BASE @ ''/pools''"

definition getYieldPools :: "network \<Rightarrow> error + ApiResponse" where
  "getYieldPools net = fetchJson net getYieldPools_url"

definition getStablecoins_url :: string where
  "getStablecoins_url = ''https://stablecoins.llama.fi/stablecoins?includePrices=true''"

definition getStablecoins :: "network \<Rightarrow> error + ApiResponse" where
  "getStablecoins net = fetchJson net getStablecoins_url"

definition getDexVolumes_url :: string where
  "getDexVolumes_url = DEFILLAMA_BASE @ ''/overview/dexs''"

definition getDexVolumes :: "network \<Rightarrow> error + ApiResponse" where
  "getDexVolumes net = fetchJson net getDexVolumes_url"

section \<open>Tool results\<close>

text \<open>
  Modelled from the spec: \<open>formatToolResult\<close> (\<open>tools/types.ts\<close>, not among the sources)
  pairs the reshaped payload with the list of source URLs that produced it.
\<close>

record ToolResult =
  payload :: jsval
  sourceUrls :: "string list"

definition formatToolResult :: "jsval \<Rightarrow> string list \<Rightarrow> ToolResult" where
  "formatToolResult d us = \<lparr>payload = d, sourceUrls = us\<rparr>"

section \<open>Idioms shared by the tools\<close>

text \<open>\<open>v?.m(...)\<close>: the rest of the chain is skipped on \<open>null\<close> and \<open>undefined\<close>.\<close>

definition opt_chain :: "jsval \<Rightarrow> (jsval \<Rightarrow> error + jsval) \<Rightarrow> error + jsval" where
  "opt_chain v k = (if nullish v then Inr JUndefined else k v)"

text \<open>\<open>v.map(f)\<close> and \<open>v.filter(f)\<close>\<close>

definition js_map :: "(jsval \<Rightarrow> error + jsval) \<Rightarrow> jsval \<Rightarrow> error + jsval" where
  "js_map f v = bindE (as_array v) (\<lambda>xs. bindE (mapE f xs) (\<lambda>ys. Inr (JArr ys)))"

definition js_filter :: "(jsval \<Rightarrow> error + bool) \<Rightarrow> jsval \<Rightarrow> error + jsval" where
  "js_filter f v = bindE (as_array v) (\<lambda>xs. bindE (filterE f xs) (\<lambda>ys. Inr (JArr ys)))"

text \<open>\<open>v.sort(cmp)\<close>\<close>

definition js_sort :: "(jsval \<Rightarrow> jsval \<Rightarrow> error + jsnum) \<Rightarrow> jsval \<Rightarrow> error + jsval" where
  "js_sort cmp v = bindE (as_array v) (\<lambda>xs. bindE (sort_by cmp xs) (\<lambda>ys. Inr (JArr ys)))"

text \<open>An optional string argument that is given and not empty (\<open>if (input.chain)\<close>).\<close>

definition given :: "string option \<Rightarrow> bool" where
  "given s = (case s of Some c \<Rightarrow> c \<noteq> [] | None \<Rightarrow> False)"

definition lower_of :: "string option \<Rightarrow> string" where
  "lower_of s = (case s of Some c \<Rightarrow> map lower_char c | None \<Rightarrow> [])"

text \<open>\<open>v.length - 1\<close>\<close>

definition last_index :: "jsval \<Rightarrow> jsnum" where
  "last_index v = js_sub (own_prop v ''length'') (JNum (Fin 1))"

text \<open>\<open>t?.[t.length - 1]?.totalLiquidityUSD\<close>\<close>

definition latest_liquidity :: "jsval \<Rightarrow> jsval" where
  "latest_liquidity t =
     (if nullish t then JUndefined
      else js_get_opt (own_index t (last_index t)) ''totalLiquidityUSD'')"

text \<open>\<open>((b - a) / a * 100).toFixed(2) + '%'\<close>\<close>

definition change_pct :: "jsval \<Rightarrow> jsval \<Rightarrow> jsval" where
  "change_pct b a =
     js_plus_str
       (JStr (toFixed 2 (num_mul (num_div (js_sub b a) (to_number a)) (Fin 100))))
       ''%''"

section \<open>The DeFi tools (defi.ts)\<close>

subsection \<open>get_top_defi_protocols\<close>

definition chain_matches :: "string \<Rightarrow> jsval \<Rightarrow> error + bool" where
  "chain_matches chainLower p =
     bindE (js_get p ''chain'') (\<lambda>c.
     bindE (toLowerCase_opt c) (\<lambda>cl.
       if cl = JStr chainLower then Inr True
       else
         bindE (js_get p ''chains'') (\<lambda>cs.
           if nullish cs then Inr False
           else bindE (as_array cs)
                  (someE (\<lambda>x. bindE (toLowerCase x) (\<lambda>l. Inr (l = JStr chainLower)))))))"

definition category_matches :: "string \<Rightarrow> jsval \<Rightarrow> error + bool" where
  "category_matches catLower p =
     bindE (js_get p ''category'') (\<lambda>c.
       if nullish c then Inr False
       else bindE (toLowerCase c)
              (\<lambda>l. Inr (case l of JStr s \<Rightarrow> includes_str s catLower | _ \<Rightarrow> False)))"

definition protocol_row :: "jsval \<Rightarrow> error + jsval" where
  "protocol_row p =
     js_object
       [(''name'', js_get p ''name''),
        (''symbol'', js_get p ''symbol''),
        (''tvl'', js_get p ''tvl''),
        (''tvl_change_1d'', bindE (js_get p ''change_1d'') pct),
        (''tvl_change_7d'', bindE (js_get p ''change_7d'') pct),
        (''tvl_change_1m'', bindE (js_get p ''change_1m'') pct),
        (''category'', js_get p ''category''),
        (''chains'', bindE (js_get p ''chains'') (js_slice_opt (Fin 0) (Some (Fin 5)))),
        (''slug'', js_get p ''slug'')]"

definition getTopDefiProtocols ::
  "network \<Rightarrow> jsnum \<Rightarrow> string option \<Rightarrow> string option \<Rightarrow> error + ToolResult" where
  "getTopDefiProtocols net limit chain category =
     bindE (getDefiProtocols net) (\<lambda>r.
     bindE (if given chain then js_filter (chain_matches (lower_of chain)) (data r)
            else Inr (data r)) (\<lambda>byChain.
     bindE (if given category then js_filter (category_matches (lower_of category)) byChain
            else Inr byChain) (\<lambda>byCategory.
     bindE (js_sort (desc_by ''tvl'') byCategory) (\<lambda>sorted.
     bindE (js_slice (Fin 0) (Some limit) sorted) (\<lambda>protocols.
     bindE (as_array protocols) (\<lambda>ps.
     bindE (mapE protocol_row ps) (\<lambda>result.
       Inr (formatToolResult
              (JObj [(''protocols'', JArr result),
                     (''count'', JNum (Fin (of_nat (length result))))])
              [url r]))))))))"

subsection \<open>get_defi_protocol_detail\<close>

text \<open>
  \<open>Object.entries\<close> and \<open>Object.keys\<close>. The fields of an object are kept in the order in
  which JavaScript enumerates them.
\<close>

definition object_entries :: "jsval \<Rightarrow> (string \<times> jsval) list" where
  "object_entries v =
     (case v of
        JObj kvs \<Rightarrow> kvs
      | JArr xs \<Rightarrow> zip (map show_nat [0 ..< length xs]) xs
      | JStr s \<Rightarrow> zip (map show_nat [0 ..< length s]) (map (\<lambda>c. JStr [c]) s)
      | _ \<Rightarrow> [])"

definition object_keys :: "jsval \<Rightarrow> jsval" where
  "object_keys v = JArr (map (\<lambda>(k, _). JStr k) (object_entries v))"

text \<open>The loop over the chains: an entry whose history is an array contributes the
  liquidity of its last point, or \<open>0\<close>.\<close>

definition chain_tvls :: "jsval \<Rightarrow> jsval" where
  "chain_tvls c =
     (if truthy c
      then JObj (concat (map (\<lambda>(chain, tvlData).
                   case tvlData of
                     JArr xs \<Rightarrow>
                       [(chain, js_or (js_get_opt (own_index tvlData (last_index tvlData))
                                         ''totalLiquidityUSD'') (JNum (Fin 0)))]
                   | _ \<Rightarrow> []) (object_entries c)))
      else JObj [])"

definition history_point :: "string \<Rightarrow> jsval \<Rightarrow> error + jsval" where
  "history_point k point =
     js_object
       [(''date'', bindE (js_get point ''date'')
                     (\<lambda>d. iso_date (num_mul (to_number d) (Fin 1000)))),
        (''tvl'', js_get point k)]"

definition getDefiProtocolDetail :: "network \<Rightarrow> string \<Rightarrow> error + ToolResult" where
  "getDefiProtocolDetail net protocol =
     bindE (getProtocolTVL net protocol) (\<lambda>r.
     let d = data r in
     bindE (js_get d ''chainTvls'') (\<lambda>c.
     let chainTvls = chain_tvls c; tvl = own_prop d ''tvl'' in
     bindE (opt_chain tvl (\<lambda>t. bindE (js_slice (Fin (- 30)) None t)
                                 (js_map (history_point ''totalLiquidityUSD'')))) (\<lambda>h.
     let tvlHistory = js_or h (JArr []) in
     bindE (js_slice_opt (Fin 0) (Some (Fin 500)) (own_prop d ''description'')) (\<lambda>description.
       Inr (formatToolResult
              (JObj [(''name'', own_prop d ''name''),
                     (''symbol'', own_prop d ''symbol''),
                     (''description'', description),
                     (''category'', own_prop d ''category''),
                     (''chains'', own_prop d ''chains''),
                     (''current_tvl'', latest_liquidity tvl),
                     (''tvl_by_chain'', chainTvls),
                     (''tvl_history_30d'', tvlHistory),
                     (''url'', own_prop d ''url''),
                     (''twitter'', own_prop d ''twitter''),
                     (''audit_links'', own_prop d ''audit_links''),
                     (''token'', own_prop d ''symbol''),
                     (''mcap_to_tvl'',
                        if truthy (own_prop d ''mcap'') \<and> truthy (latest_liquidity tvl)
                        then JStr (toFixed 2 (num_div (to_number (own_prop d ''mcap''))
                                                (to_number (latest_liquidity tvl))))
                        else JNull)])
              [url r])))))"

subsection \<open>get_chain_tvl_data\<close>

text \<open>\<open>v?.sort(cmp).slice(0, n).map(row)\<close>\<close>

definition top_rows ::
  "(jsval \<Rightarrow> jsval \<Rightarrow> error + jsnum) \<Rightarrow> rat \<Rightarrow> (jsval \<Rightarrow> error + jsval) \<Rightarrow> jsval \<Rightarrow> error + jsval" where
  "top_rows cmp n row v =
     opt_chain v (\<lambda>w.
       bindE (js_sort cmp w) (\<lambda>sorted.
       bindE (js_slice (Fin 0) (Some (Fin n)) sorted) (js_map row)))"

text \<open>\<open>xs?.length || 0\<close>\<close>

definition length_or_0 :: "jsval \<Rightarrow> jsval" where
  "length_or_0 xs = js_or (js_get_opt xs ''length'') (JNum (Fin 0))"

definition chain_row :: "jsval \<Rightarrow> error + jsval" where
  "chain_row c =
     js_object
       [(''name'', js_get c ''name''),
        (''tvl'', js_get c ''tvl''),
        (''token_symbol'', js_get c ''tokenSymbol''),
        (''gecko_id'', js_get c ''gecko_id'')]"

definition getChainTVLData :: "network \<Rightarrow> error + ToolResult" where
  "getChainTVLData net =
     bindE (getChainsTVL net) (\<lambda>r.
     bindE (top_rows (desc_by ''tvl'') 30 chain_row (data r)) (\<lambda>chains.
       Inr (formatToolResult
              (JObj [(''chains'', chains), (''count'', length_or_0 chains)])
              [url r])))"

subsection \<open>get_chain_tvl_trend\<close>

definition getChainTVLTrend :: "network \<Rightarrow> string \<Rightarrow> error + ToolResult" where
  "getChainTVLTrend net chain =
     bindE (getChainTVLHistory net chain) (\<lambda>r.
     bindE (opt_chain (data r) (\<lambda>t. bindE (js_slice (Fin (- 90)) None t)
                                      (js_map (history_point ''tvl'')))) (\<lambda>h.
     let history = js_or h (JArr []);
         first = js_or (js_get_opt (own_index history (Fin 0)) ''tvl'') (JNum (Fin 0));
         last = js_or (js_get_opt (own_index history (last_index history)) ''tvl'') (JNum (Fin 0));
         change = (if js_gt first (Fin 0) then change_pct last first else JStr ''N/A'')
     in Inr (formatToolResult
               (JObj [(''chain'', JStr chain),
                      (''current_tvl'', last),
                      (''tvl_90d_ago'', first),
                      (''change_90d'', change),
                      (''history'', history)])
               [url r])))"

subsection \<open>get_defi_yields\<close>

definition pool_row :: "jsval \<Rightarrow> error + jsval" where
  "pool_row p =
     js_object
       [(''pool'', js_get p ''pool''),
        (''symbol'', js_get p ''symbol''),
        (''project'', js_get p ''project''),
        (''chain'', js_get p ''chain''),
        (''tvl_usd'', js_get p ''tvlUsd''),
        (''apy'', bindE (js_get p ''apy'') pct),
        (''apy_base'', bindE (js_get p ''apyBase'') pct),
        (''apy_reward'', bindE (js_get p ''apyReward'') pct),
        (''stablecoin'', js_get p ''stablecoin''),
        (''il_risk'', js_get p ''ilRisk'')]"

definition pool_on_chain :: "string \<Rightarrow> jsval \<Rightarrow> error + bool" where
  "pool_on_chain chainLower p =
     bindE (js_get p ''chain'') (\<lambda>c.
     bindE (toLowerCase_opt c) (\<lambda>l. Inr (l = JStr chainLower)))"

definition pool_of_project :: "string \<Rightarrow> jsval \<Rightarrow> error + bool" where
  "pool_of_project projLower p =
     bindE (js_get p ''project'') (\<lambda>c.
       if nullish c then Inr False
       else bindE (toLowerCase c)
              (\<lambda>l. Inr (case l of JStr s \<Rightarrow> includes_str s projLower | _ \<Rightarrow> False)))"

text \<open>\<open>min_tvl\<close> is \<open>None\<close> when left out; \<open>if (input.min_tvl)\<close> also skips \<open>0\<close>.\<close>

definition getDefiYields ::
  "network \<Rightarrow> string option \<Rightarrow> string option \<Rightarrow> jsnum option \<Rightarrow> bool \<Rightarrow> jsnum
     \<Rightarrow> error + ToolResult" where
  "getDefiYields net chain project min_tvl stablecoin_only limit =
     bindE (getYieldPools net) (\<lambda>r.
     bindE (js_get (data r) ''data'') (\<lambda>d.
     let pools = js_or d (JArr []) in
     bindE (if given chain then js_filter (pool_on_chain (lower_of chain)) pools
            else Inr pools) (\<lambda>byChain.
     bindE (if given project then js_filter (pool_of_project (lower_of project)) byChain
            else Inr byChain) (\<lambda>byProject.
     bindE (case min_tvl of
              Some m \<Rightarrow>
                if truthy (JNum m)
                then js_filter (\<lambda>p. bindE (js_get p ''tvlUsd'') (\<lambda>t. Inr (js_ge t m))) byProject
                else Inr byProject
            | None \<Rightarrow> Inr byProject) (\<lambda>byTvl.
     bindE (if stablecoin_only
            then js_filter (\<lambda>p. bindE (js_get p ''stablecoin'') (\<lambda>s. Inr (s = JBool True))) byTvl
            else Inr byTvl) (\<lambda>stable.
     bindE (js_sort (desc_by ''apy'') stable) (\<lambda>sorted.
     bindE (js_slice (Fin 0) (Some limit) sorted) (\<lambda>top.
     bindE (as_array top) (\<lambda>ps.
     bindE (mapE pool_row ps) (\<lambda>result.
       Inr (formatToolResult
              (JObj [(''pools'', JArr result),
                     (''count'', JNum (Fin (of_nat (length result))))])
              [url r])))))))))))"

subsection \<open>get_stablecoin_data\<close>

text \<open>The comparator \<open>(a, b) => (b.circulating?.peggedUSD || 0) - (a.circulating?.peggedUSD || 0)\<close>\<close>

definition desc_by_circulating :: "jsval \<Rightarrow> jsval \<Rightarrow> error + jsnum" where
  "desc_by_circulating a b =
     bindE (js_get b ''circulating'') (\<lambda>bc.
     bindE (js_get a ''circulating'') (\<lambda>ac.
       Inr (js_sub (js_or (js_get_opt bc ''peggedUSD'') (JNum (Fin 0)))
                   (js_or (js_get_opt ac ''peggedUSD'') (JNum (Fin 0))))))"

definition stablecoin_row :: "jsval \<Rightarrow> error + jsval" where
  "stablecoin_row s =
     js_object
       [(''name'', js_get s ''name''),
        (''symbol'', js_get s ''symbol''),
        (''peg_type'', js_get s ''pegType''),
        (''peg_mechanism'', js_get s ''pegMechanism''),
        (''circulating'', bindE (js_get s ''circulating'') (\<lambda>c. Inr (js_get_opt c ''peggedUSD''))),
        (''price'', js_get s ''price''),
        (''chains'', bindE (js_get s ''chainCirculating'')
                       (\<lambda>c. js_slice (Fin 0) (Some (Fin 5)) (object_keys (js_or c (JObj [])))))]"

definition getStablecoinData :: "network \<Rightarrow> error + ToolResult" where
  "getStablecoinData net =
     bindE (getStablecoins net) (\<lambda>r.
     bindE (js_get (data r) ''peggedAssets'') (\<lambda>assets.
     bindE (top_rows desc_by_circulating 20 stablecoin_row assets) (\<lambda>stables.
       Inr (formatToolResult
              (JObj [(''stablecoins'', stables), (''count'', length_or_0 stables)])
              [url r]))))"

subsection \<open>get_dex_volume_data\<close>

definition dex_row :: "jsval \<Rightarrow> error + jsval" where
  "dex_row p =
     js_object
       [(''name'', js_get p ''name''),
        (''volume_24h'', js_get p ''total24h''),
        (''volume_7d'', js_get p ''total7d''),
        (''volume_30d'', js_get p ''total30d''),
        (''change_24h'', bindE (js_get p ''change_1d'') pct),
        (''chains'', bindE (js_get p ''chains'') (js_slice_opt (Fin 0) (Some (Fin 5))))]"

definition getDexVolumeData :: "network \<Rightarrow> error + ToolResult" where
  "getDexVolumeData net =
     bindE (getDexVolumes net) (\<lambda>r.
     let d = data r in
     bindE (js_get d ''protocols'') (\<lambda>ps.
     bindE (top_rows (desc_by ''total24h'') 20 dex_row ps) (\<lambda>protocols.
       Inr (formatToolResult
              (JObj [(''total_volume_24h'', own_prop d ''total24h''),
                     (''total_volume_7d'', own_prop d ''total7d''),
                     (''protocols'', protocols)])
              [url r]))))"

subsection \<open>compare_defi_protocols\<close>

text \<open>The body of the \<open>try\<close>: one fetch, then the summary of the protocol.\<close>

definition compare_row :: "jsval \<Rightarrow> error + jsval" where
  "compare_row d =
     js_object
       [(''name'', js_get d ''name''),
        (''symbol'', js_get d ''symbol''),
        (''category'', js_get d ''category''),
        (''chains'', bindE (js_get d ''chains'') (\<lambda>c. Inr (length_or_0 c))),
        (''current_tvl'',
           bindE (js_get d ''tvl'') (\<lambda>t. Inr (js_or (latest_liquidity t) (JNum (Fin 0))))),
        (''tvl_30d_ago'',
           bindE (js_get d ''tvl'')
             (\<lambda>t. Inr (js_or
                         (if nullish t then JUndefined
                          else js_get_opt
                                 (own_index t
                                    (math_max (Fin 0) (js_sub (own_prop t ''length'') (JNum (Fin 30)))))
                                 ''totalLiquidityUSD'')
                         (JNum (Fin 0)))))]"

text \<open>One compared item: whatever the \<open>try\<close> raises becomes the error marker.\<close>

definition compare_entry :: "network \<Rightarrow> string \<Rightarrow> jsval" where
  "compare_entry net protocol =
     (case bindE (getProtocolTVL net protocol) (\<lambda>r. compare_row (data r)) of
        Inr row \<Rightarrow> row
      | Inl _ \<Rightarrow> JObj [(''name'', JStr protocol), (''error'', JStr ''Failed to fetch data'')])"

text \<open>\<open>{...r, tvl_change_30d: ...}\<close>\<close>

definition with_change :: "jsval \<Rightarrow> jsval" where
  "with_change r =
     JObj (AList.update ''tvl_change_30d''
             (if js_gt (own_prop r ''tvl_30d_ago'') (Fin 0)
              then change_pct (own_prop r ''current_tvl'') (own_prop r ''tvl_30d_ago'')
              else JStr ''N/A'')
             (object_entries r))"


definition compareDefiProtocols :: "network \<Rightarrow> string list \<Rightarrow> error + ToolResult" where
  "compareDefiProtocols net protocols =
     (let results = map (compare_entry net) (slice_list (Fin 0) (Some (Fin 5)) protocols);
          comparison = map with_change results
      in Inr (formatToolResult (JObj [(''comparison'', JArr comparison)])
                [''https://api.llama.fi'']))"

section \<open>The market tools\<close>

subsection \<open>search_crypto_tokens\<close>

definition search_coin_row :: "jsval \<Rightarrow> error + jsval" where
  "search_coin_row c =
     js_object
       [(''id'', js_get c ''id''),
        (''name'', js_get c ''name''),
        (''symbol'', bindE (js_get c ''symbol'') toUpperCase_opt),
        (''market_cap_rank'', js_get c ''market_cap_rank'')]"

text \<open>\<open>v?.slice(0, n) || []\<close>\<close>

definition first_or_empty :: "rat \<Rightarrow> jsval \<Rightarrow> error + jsval" where
  "first_or_empty n v =
     bindE (js_slice_opt (Fin 0) (Some (Fin n)) v) (\<lambda>s. Inr (js_or s (JArr [])))"

text \<open>\<open>v?.slice(0, n).map(row) || []\<close>\<close>

definition first_rows :: "rat \<Rightarrow> (jsval \<Rightarrow> error + jsval) \<Rightarrow> jsval \<Rightarrow> error + jsval" where
  "first_rows n row v =
     bindE (opt_chain v (\<lambda>w. bindE (js_slice (Fin 0) (Some (Fin n)) w) (js_map row)))
       (\<lambda>rows. Inr (js_or rows (JArr [])))"

text \<open>\<open>v?.map(row) || []\<close>\<close>

definition all_rows :: "(jsval \<Rightarrow> error + jsval) \<Rightarrow> jsval \<Rightarrow> error + jsval" where
  "all_rows row v = bindE (opt_chain v (js_map row)) (\<lambda>rows. Inr (js_or rows (JArr [])))"

definition searchCryptoTokens :: "network \<Rightarrow> string \<Rightarrow> error + ToolResult" where
  "searchCryptoTokens net query =
     bindE (searchTokens net query) (\<lambda>r.
     bindE (js_object
              [(''coins'', bindE (js_get (data r) ''coins'') (first_rows 10 search_coin_row)),
               (''categories'', bindE (js_get (data r) ''categories'') (first_or_empty 5)),
               (''nfts'', bindE (js_get (data r) ''nfts'') (first_or_empty 3))]) (\<lambda>result.
       Inr (formatToolResult result [url r])))"

subsection \<open>get_trending_crypto\<close>

definition trending_row :: "jsval \<Rightarrow> error + jsval" where
  "trending_row item =
     js_object
       [(''id'', bindE (js_get item ''item'') (\<lambda>i. Inr (js_get_opt i ''id''))),
        (''name'', bindE (js_get item ''item'') (\<lambda>i. Inr (js_get_opt i ''name''))),
        (''symbol'', bindE (js_get item ''item'') (\<lambda>i. toUpperCase_opt (js_get_opt i ''symbol''))),
        (''market_cap_rank'',
           bindE (js_get item ''item'') (\<lambda>i. Inr (js_get_opt i ''market_cap_rank''))),
        (''price_btc'', bindE (js_get item ''item'') (\<lambda>i. Inr (js_get_opt i ''price_btc''))),
        (''score'', bindE (js_get item ''item'') (\<lambda>i. Inr (js_get_opt i ''score'')))]"

definition getTrendingCrypto :: "network \<Rightarrow> error + ToolResult" where
  "getTrendingCrypto net =
     bindE (getTrendingTokens net) (\<lambda>r.
     bindE (js_get (data r) ''coins'') (\<lambda>cs.
     bindE (all_rows trending_row cs) (\<lambda>coins.
       Inr (formatToolResult (JObj [(''trending_coins'', coins)]) [url r]))))"

subsection \<open>get_crypto_token_info\<close>

text \<open>\<open>m.k?.usd\<close> for the market data \<open>m\<close>, which is truthy where this is used.\<close>

definition usd_of :: "jsval \<Rightarrow> string \<Rightarrow> jsval" where
  "usd_of m k = js_get_opt (own_prop m k) ''usd''"

definition market_data_summary :: "jsval \<Rightarrow> jsval" where
  "market_data_summary m =
     (if truthy m
      then JObj
        [(''current_price_usd'', usd_of m ''current_price''),
         (''market_cap_usd'', usd_of m ''market_cap''),
         (''market_cap_rank'', own_prop m ''market_cap_rank''),
         (''fully_diluted_valuation'', usd_of m ''fully_diluted_valuation''),
         (''total_volume_24h'', usd_of m ''total_volume''),
         (''circulating_supply'', own_prop m ''circulating_supply''),
         (''total_supply'', own_prop m ''total_supply''),
         (''max_supply'', own_prop m ''max_supply''),
         (''price_change_24h'', own_prop m ''price_change_percentage_24h''),
         (''price_change_7d'', own_prop m ''price_change_percentage_7d''),
         (''price_change_30d'', own_prop m ''price_change_percentage_30d''),
         (''ath'', usd_of m ''ath''),
         (''ath_change_percentage'', usd_of m ''ath_change_percentage''),
         (''ath_date'', usd_of m ''ath_date''),
         (''atl'', usd_of m ''atl''),
         (''atl_date'', usd_of m ''atl_date'')]
      else JNull)"

definition getCryptoTokenInfo :: "network \<Rightarrow> string \<Rightarrow> error + ToolResult" where
  "getCryptoTokenInfo net token_id =
     bindE (getTokenInfo net token_id None None (Some True) None None) (\<lambda>r.
     let d = data r in
     bindE (js_object
              [(''id'', js_get d ''id''),
               (''name'', js_get d ''name''),
               (''symbol'', bindE (js_get d ''symbol'') toUpperCase_opt),
               (''description'',
                  bindE (js_get d ''description'')
                    (\<lambda>x. js_slice_opt (Fin 0) (Some (Fin 500)) (js_get_opt x ''en''))),
               (''categories'', js_get d ''categories''),
               (''links'',
                  bindE (js_get d ''links'') (\<lambda>l.
                    Inr (JObj
                      [(''homepage'', js_index_opt (js_get_opt l ''homepage'') (Fin 0)),
                       (''twitter'', js_get_opt l ''twitter_screen_name''),
                       (''github'',
                          js_index_opt (js_get_opt (js_get_opt l ''repos_url'') ''github'')
                            (Fin 0))]))),
               (''market_data'', bindE (js_get d ''market_data'') (\<lambda>m. Inr (market_data_summary m))),
               (''genesis_date'', js_get d ''genesis_date''),
               (''sentiment_votes_up_percentage'', js_get d ''sentiment_votes_up_percentage''),
               (''sentiment_votes_down_percentage'', js_get d ''sentiment_votes_down_percentage'')])
       (\<lambda>result. Inr (formatToolResult result [url r])))"

subsection \<open>get_crypto_price\<close>

definition getCryptoPrice :: "network \<Rightarrow> string list \<Rightarrow> string \<Rightarrow> error + ToolResult" where
  "getCryptoPrice net token_ids vs_currency =
     bindE (getTokenPrice net token_ids [vs_currency] (Some True) (Some True) (Some True)) (\<lambda>r.
       Inr (formatToolResult (data r) [url r]))"

subsection \<open>get_crypto_ohlc\<close>

text \<open>
  \<open>new Date(v).toISOString()\<close> for any value \<open>v\<close>. A string, and an array or object through
  its string, is read by \<open>Date.parse\<close>, whose result for strings outside the ISO format is
  left to the implementation: \<open>parse\<close> is that function, a parameter of the model.
\<close>

definition date_of :: "(string \<Rightarrow> jsnum) \<Rightarrow> jsval \<Rightarrow> error + jsval" where
  "date_of parse v =
     bindE (toISOString
              (case v of
                 JStr s \<Rightarrow> parse s
               | JArr xs \<Rightarrow> parse (to_string v)
               | JObj kvs \<Rightarrow> parse (to_string v)
               | _ \<Rightarrow> to_number v))
       (\<lambda>s. Inr (JStr s))"

definition candle_row :: "(string \<Rightarrow> jsnum) \<Rightarrow> jsval \<Rightarrow> error + jsval" where
  "candle_row parse candle =
     js_object
       [(''timestamp'', bindE (js_index candle (Fin 0)) (date_of parse)),
        (''open'', js_index candle (Fin 1)),
        (''high'', js_index candle (Fin 2)),
        (''low'', js_index candle (Fin 3)),
        (''close'', js_index candle (Fin 4))]"

definition getCryptoOHLC ::
  "(string \<Rightarrow> jsnum) \<Rightarrow> network \<Rightarrow> string \<Rightarrow> jsnum \<Rightarrow> string \<Rightarrow> error + ToolResult" where
  "getCryptoOHLC parse net token_id days vs_currency =
     bindE (getTokenOHLC net token_id vs_currency days) (\<lambda>r.
     bindE (all_rows (candle_row parse) (data r)) (\<lambda>formatted.
       Inr (formatToolResult
              (JObj [(''ohlc'', formatted), (''count'', own_prop formatted ''length'')])
              [url r])))"

subsection \<open>get_crypto_price_history\<close>

text \<open>\<open>p ? { date: new Date(p[0]).toISOString(), price: p[1] } : null\<close>\<close>

definition price_point :: "(string \<Rightarrow> jsnum) \<Rightarrow> jsval \<Rightarrow> error + jsval" where
  "price_point parse p =
     js_object
       [(''date'', bindE (js_index p (Fin 0)) (date_of parse)),
        (''price'', js_index p (Fin 1))]"

text \<open>The sampling filter \<open>(_, i) => i % Math.ceil(prices.length / 20) === 0\<close> on an array
  of \<open>n\<close> elements keeps the indices that are multiples of \<open>\<lceil>n / 20\<rceil>\<close>.\<close>

definition sample_every :: "'a list \<Rightarrow> 'a list" where
  "sample_every xs =
     map snd (filter (\<lambda>(i, _). i mod ((length xs + 19) div 20) = 0)
                (zip [0 ..< length xs] xs))"

definition getCryptoPriceHistory ::
  "(string \<Rightarrow> jsnum) \<Rightarrow> network \<Rightarrow> string \<Rightarrow> days_arg \<Rightarrow> string \<Rightarrow> error + ToolResult" where
  "getCryptoPriceHistory parse net token_id days vs_currency =
     bindE (getTokenMarketChart net token_id vs_currency days) (\<lambda>r.
     bindE (js_get (data r) ''prices'') (\<lambda>p.
     let prices = js_or p (JArr []);
         first = own_index prices (Fin 0);
         last = own_index prices (last_index prices)
     in
     bindE (js_object
              [(''data_points'', Inr (own_prop prices ''length'')),
               (''first_price'', if truthy first then price_point parse first else Inr JNull),
               (''last_price'', if truthy last then price_point parse last else Inr JNull),
               (''price_change'',
                  if js_ge (own_prop prices ''length'') (Fin 2)
                  then bindE (js_index last (Fin 1)) (\<lambda>l.
                       bindE (js_index first (Fin 1)) (\<lambda>f. Inr (change_pct l f)))
                  else Inr JNull),
               (''sampled_prices'',
                  bindE (as_array prices) (\<lambda>xs.
                  bindE (mapE (price_point parse) (sample_every xs)) (\<lambda>ys. Inr (JArr ys))))])
       (\<lambda>result. Inr (formatToolResult result [url r]))))"

subsection \<open>get_global_crypto_data\<close>

definition getGlobalCryptoData :: "network \<Rightarrow> error + ToolResult" where
  "getGlobalCryptoData net =
     bindE (getGlobalMarketData net) (\<lambda>r.
     bindE (js_get (data r) ''data'') (\<lambda>d.
     bindE (js_object
              [(''active_cryptocurrencies'', js_get d ''active_cryptocurrencies''),
               (''markets'', js_get d ''markets''),
               (''total_market_cap_usd'',
                  bindE (js_get d ''total_market_cap'') (\<lambda>x. Inr (js_get_opt x ''usd''))),
               (''total_volume_24h_usd'',
                  bindE (js_get d ''total_volume'') (\<lambda>x. Inr (js_get_opt x ''usd''))),
               (''btc_dominance'',
                  bindE (js_get d ''market_cap_percentage'') (\<lambda>x. pct (js_get_opt x ''btc''))),
               (''eth_dominance'',
                  bindE (js_get d ''market_cap_percentage'') (\<lambda>x. pct (js_get_opt x ''eth''))),
               (''market_cap_change_24h'',
                  bindE (js_get d ''market_cap_change_percentage_24h_usd'') pct)])
       (\<lambda>result. Inr (formatToolResult result [url r]))))"

subsection \<open>get_top_crypto_coins\<close>

definition top_coin_row :: "jsval \<Rightarrow> error + jsval" where
  "top_coin_row c =
     js_object
       [(''rank'', js_get c ''market_cap_rank''),
        (''id'', js_get c ''id''),
        (''symbol'', bindE (js_get c ''symbol'') toUpperCase_opt),
        (''name'', js_get c ''name''),
        (''price_usd'', js_get c ''current_price''),
        (''market_cap'', js_get c ''market_cap''),
        (''volume_24h'', js_get c ''total_volume''),
        (''price_change_1h'', bindE (js_get c ''price_change_percentage_1h_in_currency'') pct),
        (''price_change_24h'', bindE (js_get c ''price_change_percentage_24h'') pct),
        (''price_change_7d'', bindE (js_get c ''price_change_percentage_7d_in_currency'') pct),
        (''price_change_30d'', bindE (js_get c ''price_change_percentage_30d_in_currency'') pct),
        (''ath'', js_get c ''ath''),
        (''ath_change'', bindE (js_get c ''ath_change_percentage'') pct)]"

text \<open>The page size sent upstream: \<open>Math.min(input.limit, 100)\<close>.\<close>

definition top_coins_per_page :: "jsnum \<Rightarrow> jsnum" where
  "top_coins_per_page limit = math_min limit (Fin 100)"

definition getTopCryptoCoins :: "network \<Rightarrow> jsnum \<Rightarrow> jsnum \<Rightarrow> error + ToolResult" where
  "getTopCryptoCoins net limit page =
     bindE (getTopCoins net ''usd'' (top_coins_per_page limit) page ''market_cap_desc'') (\<lambda>r.
     bindE (all_rows top_coin_row (data r)) (\<lambda>coins.
       Inr (formatToolResult
              (JObj [(''coins'', coins), (''count'', own_prop coins ''length'')])
              [url r])))"

subsection \<open>get_crypto_fear_greed\<close>

text \<open>\<open>new Date(parseInt(v) * 1000).toISOString()\<close>\<close>

definition seconds_iso :: "jsval \<Rightarrow> error + string" where
  "seconds_iso v = toISOString (num_mul (js_parseInt v) (Fin 1000))"

definition fear_greed_row :: "jsval \<Rightarrow> error + jsval" where
  "fear_greed_row item =
     js_object
       [(''value'', bindE (js_get item ''value'') (\<lambda>v. Inr (JNum (js_parseInt v)))),
        (''classification'', js_get item ''value_classification''),
        (''date'', bindE (js_get item ''timestamp'')
                     (\<lambda>t. bindE (seconds_iso t) (\<lambda>s. Inr (JStr (before_T s)))))]"

definition fear_greed_interpretation :: jsval where
  "fear_greed_interpretation =
     JObj [(''50'', JStr ''Neutral''),
           (''0-24'', JStr ''Extreme Fear - potential buying opportunity''),
           (''25-49'', JStr ''Fear - market is worried''),
           (''51-74'', JStr ''Greed - market is getting greedy''),
           (''75-100'', JStr ''Extreme Greed - potential correction ahead'')]"

definition getCryptoFearGreed :: "network \<Rightarrow> error + ToolResult" where
  "getCryptoFearGreed net =
     bindE (getFearGreedIndex net) (\<lambda>r.
     bindE (js_get (data r) ''data'') (\<lambda>xs.
     let latest = js_index_opt xs (Fin 0) in
     bindE (js_object
              [(''current'',
                  js_object
                    [(''value'', Inr (JNum (js_parseInt (js_get_opt latest ''value'')))),
                     (''classification'', Inr (js_get_opt latest ''value_classification'')),
                     (''timestamp'',
                        bindE (seconds_iso (js_get_opt latest ''timestamp''))
                          (\<lambda>s. Inr (JStr s)))]),
               (''history'',
                  opt_chain xs (\<lambda>w. bindE (js_slice (Fin 0) (Some (Fin 7)) w)
                                       (js_map fear_greed_row))),
               (''interpretation'', Inr fear_greed_interpretation)])
       (\<lambda>result. Inr (formatToolResult result [url r]))))"

subsection \<open>get_crypto_categories\<close>

definition category_row :: "jsval \<Rightarrow> error + jsval" where
  "category_row c =
     js_object
       [(''id'', js_get c ''id''),
        (''name'', js_get c ''name''),
        (''market_cap'', js_get c ''market_cap''),
        (''market_cap_change_24h'', bindE (js_get c ''market_cap_change_24h'') pct),
        (''volume_24h'', js_get c ''volume_24h''),
        (''top_3_coins'', js_get c ''top_3_coins'')]"

definition getCryptoCategories :: "network \<Rightarrow> error + ToolResult" where
  "getCryptoCategories net =
     bindE (getCategories net) (\<lambda>r.
     bindE (first_rows 30 category_row (data r)) (\<lambda>categories.
       Inr (formatToolResult
              (JObj [(''categories'', categories), (''count'', own_prop categories ''length'')])
              [url r])))"

subsection \<open>get_crypto_by_sector\<close>

definition sector_coin_row :: "jsval \<Rightarrow> error + jsval" where
  "sector_coin_row c =
     js_object
       [(''rank'', js_get c ''market_cap_rank''),
        (''id'', js_get c ''id''),
        (''symbol'', bindE (js_get c ''symbol'') toUpperCase_opt),
        (''name'', js_get c ''name''),
        (''price_usd'', js_get c ''current_price''),
        (''market_cap'', js_get c ''market_cap''),
        (''price_change_24h'', bindE (js_get c ''price_change_percentage_24h'') pct)]"

definition getCryptoBySector :: "network \<Rightarrow> string \<Rightarrow> error + ToolResult" where
  "getCryptoBySector net category_id =
     bindE (getCategoryCoins net category_id ''usd'') (\<lambda>r.
     bindE (first_rows 25 sector_coin_row (data r)) (\<lambda>coins.
       Inr (formatToolResult
              (JObj [(''category'', JStr category_id),
                     (''coins'', coins),
                     (''count'', own_prop coins ''length'')])
              [url r])))"

subsection \<open>get_crypto_exchanges\<close>

definition exchange_row :: "jsval \<Rightarrow> error + jsval" where
  "exchange_row e =
     js_object
       [(''rank'', js_get e ''trust_score_rank''),
        (''id'', js_get e ''id''),
        (''name'', js_get e ''name''),
        (''trust_score'', js_get e ''trust_score''),
        (''volume_24h_btc'', js_get e ''trade_volume_24h_btc''),
        (''year_established'', js_get e ''year_established''),
        (''country'', js_get e ''country'')]"

definition getCryptoExchanges :: "network \<Rightarrow> jsnum \<Rightarrow> error + ToolResult" where
  "getCryptoExchanges net limit =
     bindE (getExchanges net (math_min limit (Fin 50))) (\<lambda>r.
     bindE (all_rows exchange_row (data r)) (\<lambda>exchanges.
       Inr (formatToolResult
              (JObj [(''exchanges'', exchanges), (''count'', own_prop exchanges ''length'')])
              [url r])))"

section \<open>Observations on results\<close>

text \<open>A string that ends in a per cent sign.\<close>

definition is_pct_string :: "jsval \<Rightarrow> bool" where
  "is_pct_string v = (case v of JStr s \<Rightarrow> s \<noteq> [] \<and> last s = CHR ''%'' | _ \<Rightarrow> False)"

text \<open>The body of the response to a GET of \<open>u\<close>, and the elements of an array.\<close>

definition upstream_body :: "network \<Rightarrow> string \<Rightarrow> jsval" where
  "upstream_body net u = (case net u of Response _ _ (Some b) \<Rightarrow> b | _ \<Rightarrow> JUndefined)"

definition array_items :: "jsval \<Rightarrow> jsval list" where
  "array_items v = (case v of JArr xs \<Rightarrow> xs | _ \<Rightarrow> [])"

text \<open>The number the comparator \<open>(a, b) => (b.k || 0) - (a.k || 0)\<close> orders by, and a list
  in non-increasing order of it.\<close>

definition order_key :: "string \<Rightarrow> jsval \<Rightarrow> jsnum" where
  "order_key k p = to_number (js_or (own_prop p k) (JNum (Fin 0)))"

definition descending :: "string \<Rightarrow> jsval list \<Rightarrow> bool" where
  "descending k ps = sorted_wrt (\<lambda>a b. num_ge (order_key k a) (order_key k b)) ps"

text \<open>The \<open>count\<close> of a payload equals the length of its list \<open>k\<close>, and is \<open>0\<close> when the
  list is absent.\<close>

definition count_matches :: "string \<Rightarrow> jsval \<Rightarrow> bool" where
  "count_matches k p =
     (case own_prop p k of
        JArr rows \<Rightarrow> own_prop p ''count'' = JNum (Fin (of_nat (length rows)))
      | JUndefined \<Rightarrow> own_prop p ''count'' = JNum (Fin 0)
      | _ \<Rightarrow> False)"

text \<open>The number of rows in the list \<open>k\<close> of a result.\<close>

definition row_count :: "string \<Rightarrow> error + ToolResult \<Rightarrow> nat option" where
  "row_count k r =
     (case r of
        Inr res \<Rightarrow> (case own_prop (payload res) k of JArr rows \<Rightarrow> Some (length rows) | _ \<Rightarrow> None)
      | Inl _ \<Rightarrow> None)"

text \<open>A field of the payload of a result.\<close>

definition result_field :: "string \<Rightarrow> error + ToolResult \<Rightarrow> jsval option" where
  "result_field k r = (case r of Inr res \<Rightarrow> Some (own_prop (payload res) k) | Inl _ \<Rightarrow> None)"


text \<open>The number of hundredths nearest to \<open>\<bar>x\<bar>\<close>, the larger one on a tie.\<close>

definition hundredths :: "rat \<Rightarrow> int" where
  "hundredths x = \<lfloor>\<bar>x\<bar> * 100 + 1 / 2\<rfloor>"

text \<open>A number written with exactly two decimals: a sign if it is negative, the digits
  of the integer part, a point, and the two digits of the hundredths.\<close>

definition two_decimals :: "rat \<Rightarrow> string" where
  "two_decimals x =
     (if x < 0 then ''-'' else [])
     @ digits_of (hundredths x div 100) @ ''.''
     @ [''0123456789'' ! nat (hundredths x div 10 mod 10),
        ''0123456789'' ! nat (hundredths x mod 10)]"

section \<open>Example upstream responses\<close>

definition ok_json :: "jsval \<Rightarrow> http_response" where
  "ok_json b = Response 200 ''OK'' (Some b)"

definition net_protocols :: network where
  "net_protocols = (\<lambda>_. ok_json (JArr
     [JObj [(''name'', JStr ''Aave''), (''tvl'', JNum (Fin 100)),
            (''change_1d'', JNum (Fin (5 / 4)))],
      JObj [(''name'', JStr ''Lido''), (''tvl'', JNum (Fin 300)),
            (''change_1d'', JNum (Fin (- 1 / 3))), (''chains'', JArr [JStr ''Ethereum''])],
      JObj [(''name'', JStr ''Curve''), (''tvl'', JNum (Fin 200))]]))"

definition net_pools :: network where
  "net_pools = (\<lambda>_. ok_json (JObj [(''status'', JStr ''success''), (''data'', JArr
     [JObj [(''pool'', JStr ''p1''), (''project'', JStr ''aave-v3''), (''apy'', JNum (Fin (7 / 2)))],
      JObj [(''pool'', JStr ''p2''), (''project'', JStr ''lido''), (''apy'', JNum (Fin 12)),
            (''apyBase'', JNum (Fin 4))],
      JObj [(''pool'', JStr ''p3''), (''project'', JStr ''curve-dex'')]])]))"








definition net_global :: network where
  "net_global = (\<lambda>_. ok_json (JObj [(''data'', JObj
     [(''active_cryptocurrencies'', JNum (Fin 17000)),
      (''markets'', JNum (Fin 1200)),
      (''market_cap_percentage'', JObj [(''btc'', JNum (Fin (543189 / 10000))),
                                         (''eth'', JNum (Fin (35 / 2)))]),
      (''market_cap_change_percentage_24h_usd'', JNum (Fin (- 7 / 8)))])]))"

definition net_global_bare :: network where
  "net_global_bare = (\<lambda>_. ok_json (JObj [(''data'', JObj [])]))"

definition net_empty_object :: network where
  "net_empty_object = (\<lambda>_. ok_json (JObj []))"

definition net_fear_greed :: network where
  "net_fear_greed = (\<lambda>_. ok_json (JObj [(''name'', JStr ''Fear and Greed Index''), (''data'', JArr
     [JObj [(''value'', JStr ''72''), (''value_classification'', JStr ''Greed''),
            (''timestamp'', JStr ''1700000000'')]])]))"

definition net_fear_greed_no_timestamp :: network where
  "net_fear_greed_no_timestamp = (\<lambda>_. ok_json (JObj [(''data'', JArr
     [JObj [(''value'', JStr ''72''), (''value_classification'', JStr ''Greed'')]])]))"

definition net_candles :: network where
  "net_candles = (\<lambda>_. ok_json (JArr
     [JArr [JNum (Fin 1700000000000), JNum (Fin 10), JNum (Fin 12), JNum (Fin 9), JNum (Fin 11)],
      JArr [JNum (Fin 1700014400000), JNum (Fin 11), JNum (Fin 13), JNum (Fin 10), JNum (Fin 12)]]))"

definition net_null :: network where
  "net_null = (\<lambda>_. ok_json JNull)"

section \<open>The registered tools\<close>

text \<open>
  The crypto tools of the registry \<open>TOOLS\<close>, each with the arguments of its schema, and
  the dispatch of a call to its tool. \<open>parse\<close> is \<open>Date.parse\<close>.
\<close>

datatype tool_call =
    SearchCryptoTokens string
  | GetTrendingCrypto
  | GetCryptoTokenInfo string
  | GetCryptoPrice "string list" string
  | GetCryptoOHLC string jsnum string
  | GetCryptoPriceHistory string days_arg string
  | GetGlobalCryptoData
  | GetTopCryptoCoins jsnum jsnum
  | GetCryptoFearGreed
  | GetCryptoCategories
  | GetCryptoBySector string
  | GetCryptoExchanges jsnum
  | GetTopDefiProtocols jsnum "string option" "string option"
  | GetDefiProtocolDetail string
  | GetChainTVLData
  | GetChainTVLTrend string
  | GetDefiYields "string option" "string option" "jsnum option" bool jsnum
  | GetStablecoinData
  | GetDexVolumeData
  | CompareDefiProtocols "string list"

fun run_tool :: "(string \<Rightarrow> jsnum) \<Rightarrow> network \<Rightarrow> tool_call \<Rightarrow> error + ToolResult" where
  "run_tool parse net (SearchCryptoTokens query) = searchCryptoTokens net query"
| "run_tool parse net GetTrendingCrypto = getTrendingCrypto net"
| "run_tool parse net (GetCryptoTokenInfo token_id) = getCryptoTokenInfo net token_id"
| "run_tool parse net (GetCryptoPrice token_ids vs_currency) =
     getCryptoPrice net token_ids vs_currency"
| "run_tool parse net (GetCryptoOHLC token_id days vs_currency) =
     getCryptoOHLC parse net token_id days vs_currency"
| "run_tool parse net (GetCryptoPriceHistory token_id days vs_currency) =
     getCryptoPriceHistory parse net token_id days vs_currency"
| "run_tool parse net GetGlobalCryptoData = getGlobalCryptoData net"
| "run_tool parse net (GetTopCryptoCoins limit page) = getTopCryptoCoins net limit page"
| "run_tool parse net GetCryptoFearGreed = getCryptoFearGreed net"
| "run_tool parse net GetCryptoCategories = getCryptoCategories net"
| "run_tool parse net (GetCryptoBySector category_id) = getCryptoBySector net category_id"
| "run_tool parse net (GetCryptoExchanges limit) = getCryptoExchanges net limit"
| "run_tool parse net (GetTopDefiProtocols limit chain category) =
     getTopDefiProtocols net limit chain category"
| "run_tool parse net (GetDefiProtocolDetail protocol) = getDefiProtocolDetail net protocol"
| "run_tool parse net GetChainTVLData = getChainTVLData net"
| "run_tool parse net (GetChainTVLTrend chain) = getChainTVLTrend net chain"
| "run_tool parse net (GetDefiYields chain project min_tvl stablecoin_only limit) =
     getDefiYields net chain project min_tvl stablecoin_only limit"
| "run_tool parse net GetStablecoinData = getStablecoinData net"
| "run_tool parse net GetDexVolumeData = getDexVolumeData net"
| "run_tool parse net (CompareDefiProtocols protocols) = compareDefiProtocols net protocols"

text \<open>
  The origin each tool sends its requests to. The market tools use \<open>COINGECKO_BASE\<close> and
  the DeFi tools \<open>DEFILLAMA_BASE\<close>, but for two: the fear and greed index comes from
  \<open>alternative.me\<close>, and the stablecoins from a host of their own.
\<close>

definition ALTERNATIVE_ME :: string where
  "ALTERNATIVE_ME = ''https://api.alternative.me''"

definition STABLECOINS_LLAMA :: string where
  "STABLECOINS_LLAMA = ''https://stablecoins.llama.fi''"

fun is_defi_tool :: "tool_call \<Rightarrow> bool" where
  "is_defi_tool (GetTopDefiProtocols limit chain category) = True"
| "is_defi_tool (GetDefiProtocolDetail protocol) = True"
| "is_defi_tool GetChainTVLData = True"
| "is_defi_tool (GetChainTVLTrend chain) = True"
| "is_defi_tool (GetDefiYields chain project min_tvl stablecoin_only limit) = True"
| "is_defi_tool GetStablecoinData = True"
| "is_defi_tool GetDexVolumeData = True"
| "is_defi_tool (CompareDefiProtocols protocols) = True"
| "is_defi_tool _ = False"

definition source_base :: "tool_call \<Rightarrow> string" where
  "source_base c =
     (if c = GetCryptoFearGreed then ALTERNATIVE_ME
      else if c = GetStablecoinData then STABLECOINS_LLAMA
      else if is_defi_tool c then DEFILLAMA_BASE
      else COINGECKO_BASE)"

section \<open>Basic facts\<close>

lemma bindE_Inr_iff: "bindE m f = Inr y \<longleftrightarrow> (\<exists>x. m = Inr x \<and> f x = Inr y)"
  by (cases m) (simp_all add: bindE_def)

lemma bindE_Inr [simp]: "bindE (Inr x) f = f x"
  by (simp add: bindE_def)

lemma bindE_Inl [simp]: "bindE (Inl e) f = Inl e"
  by (simp add: bindE_def)

lemma digits_small: "n < 10 \<Longrightarrow> digits_of n = [''0123456789'' ! nat n]"
  by (subst digits_of.simps) simp

lemma digits_step:
  "10 \<le> n \<Longrightarrow> digits_of n = digits_of (n div 10) @ [''0123456789'' ! nat (n mod 10)]"
  by (subst digits_of.simps) simp

lemma digits_nonempty: "digits_of n \<noteq> []"
  by (subst digits_of.simps) simp

lemma mapE_Inr_all2: "mapE f xs = Inr ys \<Longrightarrow> list_all2 (\<lambda>x y. f x = Inr y) xs ys"
  by (induction xs arbitrary: ys) (auto simp: bindE_Inr_iff)

lemma mapE_length: "mapE f xs = Inr ys \<Longrightarrow> length ys = length xs"
  by (drule mapE_Inr_all2) (simp add: list_all2_lengthD)


lemma filterE_length: "filterE f xs = Inr ys \<Longrightarrow> length ys \<le> length xs"
  by (induction xs arbitrary: ys) (auto simp: bindE_Inr_iff split: if_splits)

lemma filterE_subset: "filterE f xs = Inr ys \<Longrightarrow> set ys \<subseteq> set xs"
  by (induction xs arbitrary: ys) (auto simp: bindE_Inr_iff split: if_splits)

lemma insert_by_set:
  "insert_by cmp x ys = Inr zs \<Longrightarrow> set zs = insert x (set ys) \<and> length zs = Suc (length ys)"
  by (induction ys arbitrary: zs) (auto simp: bindE_Inr_iff split: if_splits)

lemma sort_by_set: "sort_by cmp xs = Inr ys \<Longrightarrow> set ys = set xs \<and> length ys = length xs"
  by (induction xs arbitrary: ys) (auto simp: bindE_Inr_iff dest!: insert_by_set)

lemma fetchJson_url: "fetchJson net u = Inr r \<Longrightarrow> url r = u"
  by (auto simp: fetchJson_def split: http_response.splits if_splits option.splits)

lemma fetchJson_body: "fetchJson net u = Inr r \<Longrightarrow> data r = upstream_body net u"
  by (auto simp: fetchJson_def upstream_body_def split: http_response.splits if_splits option.splits)

lemma as_array_Inr: "as_array v = Inr xs \<longleftrightarrow> v = JArr xs"
  by (cases v) (simp_all add: as_array_def)


lemma js_filter_Inr:
  "js_filter f v = Inr w \<longleftrightarrow> (\<exists>xs ys. v = JArr xs \<and> filterE f xs = Inr ys \<and> w = JArr ys)"
  by (auto simp: js_filter_def bindE_Inr_iff as_array_Inr)

lemma js_sort_Inr:
  "js_sort cmp v = Inr w \<longleftrightarrow> (\<exists>xs ys. v = JArr xs \<and> sort_by cmp xs = Inr ys \<and> w = JArr ys)"
  by (auto simp: js_sort_def bindE_Inr_iff as_array_Inr)

lemma js_slice_JArr: "js_slice a b (JArr xs) = Inr (JArr (slice_list a b xs))"
  by (simp add: js_slice_def)

lemma pct_is_pct_string: "pct v = Inr x \<Longrightarrow> is_pct_string x"
  by (auto simp: pct_def bindE_Inr_iff js_plus_str_def is_pct_string_def split: if_splits)


lemma not_pct_NA: "\<not> is_pct_string (JStr ''N/A'')"
  by (simp add: is_pct_string_def)

section \<open>Facts about the tools\<close>


lemma protocol_row_fields:
  assumes "protocol_row p = Inr row"
  shows "is_pct_string (own_prop row ''tvl_change_1d'')"
    and "is_pct_string (own_prop row ''tvl_change_7d'')"
    and "is_pct_string (own_prop row ''tvl_change_1m'')"
    and "own_prop row ''tvl'' = own_prop p ''tvl''"
  using assms
  by (auto simp: protocol_row_def js_object_def bindE_Inr_iff js_get_def
           dest: pct_is_pct_string split: if_splits)

lemma getTopDefiProtocols_Inr:
  assumes "getTopDefiProtocols net limit chain category = Inr res"
  shows "\<exists>upstream kept sorted rows.
           upstream_body net getDefiProtocols_url = JArr upstream
         \<and> set kept \<subseteq> set upstream
         \<and> sort_by (desc_by ''tvl'') kept = Inr sorted
         \<and> mapE protocol_row (slice_list (Fin 0) (Some limit) sorted) = Inr rows
         \<and> res = formatToolResult
                   (JObj [(''protocols'', JArr rows),
                          (''count'', JNum (Fin (of_nat (length rows))))])
                   [getDefiProtocols_url]"
proof -
  from assms obtain r byChain byCategory sorted rows where
    r: "getDefiProtocols net = Inr r"
    and c1: "(if given chain then js_filter (chain_matches (lower_of chain)) (data r)
              else Inr (data r)) = Inr byChain"
    and c2: "(if given category then js_filter (category_matches (lower_of category)) byChain
              else Inr byChain) = Inr byCategory"
    and s: "js_sort (desc_by ''tvl'') byCategory = Inr (JArr sorted)"
    and m: "mapE protocol_row (slice_list (Fin 0) (Some limit) sorted) = Inr rows"
    and res: "res = formatToolResult
                   (JObj [(''protocols'', JArr rows),
                          (''count'', JNum (Fin (of_nat (length rows))))])
                   [url r]"
    unfolding getTopDefiProtocols_def
    by (auto simp: bindE_Inr_iff js_sort_Inr js_slice_JArr as_array_Inr)
  from r have u: "url r = getDefiProtocols_url" and d: "data r = upstream_body net getDefiProtocols_url"
    by (simp_all add: getDefiProtocols_def fetchJson_url fetchJson_body)
  from s obtain kept where k: "byCategory = JArr kept" "sort_by (desc_by ''tvl'') kept = Inr sorted"
    by (auto simp: js_sort_Inr)
  from c2 k(1) obtain mid where mid: "byChain = JArr mid" "set kept \<subseteq> set mid"
    by (auto simp: js_filter_Inr split: if_splits dest: filterE_subset)
  from c1 mid obtain upstream where up: "data r = JArr upstream" "set mid \<subseteq> set upstream"
    by (auto simp: js_filter_Inr split: if_splits dest: filterE_subset)
  show ?thesis
    using u d k mid up m res by (intro exI [of _ upstream] exI [of _ kept] exI [of _ sorted] exI [of _ rows]) auto
qed


lemma filter_step:
  assumes "(if c then js_filter f v else Inr v) = Inr (JArr ys)"
  shows "\<exists>xs. v = JArr xs \<and> set ys \<subseteq> set xs"
  using assms by (auto simp: js_filter_Inr split: if_splits dest: filterE_subset)

lemma getDefiYields_Inr:
  assumes "getDefiYields net chain project min_tvl stablecoin_only limit = Inr res"
  shows "\<exists>upstream kept sorted rows.
           js_or (own_prop (upstream_body net getYieldPools_url) ''data'') (JArr []) = JArr upstream
         \<and> set kept \<subseteq> set upstream
         \<and> sort_by (desc_by ''apy'') kept = Inr sorted
         \<and> mapE pool_row (slice_list (Fin 0) (Some limit) sorted) = Inr rows
         \<and> res = formatToolResult
                   (JObj [(''pools'', JArr rows),
                          (''count'', JNum (Fin (of_nat (length rows))))])
                   [getYieldPools_url]"
proof -
  from assms obtain r d byChain byProject byTvl stable sorted rows where
    r: "getYieldPools net = Inr r"
    and d: "js_get (data r) ''data'' = Inr d"
    and c1: "(if given chain then js_filter (pool_on_chain (lower_of chain)) (js_or d (JArr []))
              else Inr (js_or d (JArr []))) = Inr byChain"
    and c2: "(if given project then js_filter (pool_of_project (lower_of project)) byChain
              else Inr byChain) = Inr byProject"
    and c3: "(case min_tvl of
              Some m \<Rightarrow>
                if truthy (JNum m)
                then js_filter (\<lambda>p. bindE (js_get p ''tvlUsd'') (\<lambda>t. Inr (js_ge t m))) byProject
                else Inr byProject
            | None \<Rightarrow> Inr byProject) = Inr byTvl"
    and c4: "(if stablecoin_only
            then js_filter (\<lambda>p. bindE (js_get p ''stablecoin'') (\<lambda>s. Inr (s = JBool True))) byTvl
            else Inr byTvl) = Inr stable"
    and s: "js_sort (desc_by ''apy'') stable = Inr (JArr sorted)"
    and m: "mapE pool_row (slice_list (Fin 0) (Some limit) sorted) = Inr rows"
    and res: "res = formatToolResult
                   (JObj [(''pools'', JArr rows),
                          (''count'', JNum (Fin (of_nat (length rows))))])
                   [url r]"
    unfolding getDefiYields_def Let_def
    by (auto simp: bindE_Inr_iff js_sort_Inr js_slice_JArr as_array_Inr)
  from r have u: "url r = getYieldPools_url" and b: "data r = upstream_body net getYieldPools_url"
    by (simp_all add: getYieldPools_def fetchJson_url fetchJson_body)
  from d b have d': "d = own_prop (upstream_body net getYieldPools_url) ''data''"
    by (auto simp: js_get_def split: if_splits)
  from s obtain kept where k: "stable = JArr kept" "sort_by (desc_by ''apy'') kept = Inr sorted"
    by (auto simp: js_sort_Inr)
  from c4 k(1) obtain x4 where x4: "byTvl = JArr x4" "set kept \<subseteq> set x4"
    using filter_step by blast
  from c3 x4(1) obtain x3 where x3: "byProject = JArr x3" "set x4 \<subseteq> set x3"
    by (cases min_tvl) (auto simp: js_filter_Inr split: if_splits dest: filterE_subset)
  from c2 x3(1) obtain x2 where x2: "byChain = JArr x2" "set x3 \<subseteq> set x2"
    using filter_step by blast
  from c1 x2(1) obtain x1 where x1: "js_or d (JArr []) = JArr x1" "set x2 \<subseteq> set x1"
    using filter_step by blast
  show ?thesis
    using u d' k x4 x3 x2 x1 m res
    by (intro exI [of _ x1] exI [of _ kept] exI [of _ sorted] exI [of _ rows]) auto
qed






section \<open>Sorting and slicing\<close>

lemma desc_by_value:
  "desc_by k a b = Inr v \<Longrightarrow> v = num_sub (order_key k b) (order_key k a)"
  by (auto simp: desc_by_def bindE_Inr_iff js_get_def js_sub_def order_key_def split: if_splits)

lemma num_sub_pos:
  "a \<noteq> NaN \<Longrightarrow> b \<noteq> NaN \<Longrightarrow> num_gt (num_sub b a) (Fin 0) \<longleftrightarrow> num_lt a b"
  by (cases a; cases b) (auto simp: num_sub_def num_gt_def)

lemma num_ge_trans:
  "num_ge a b \<Longrightarrow> num_ge b c \<Longrightarrow> num_ge a c"
  by (cases a; cases b; cases c) (auto simp: num_ge_def)

lemma num_lt_ge: "num_lt a b \<Longrightarrow> num_ge b a"
  by (cases a; cases b) (auto simp: num_ge_def)

lemma not_num_lt_ge: "a \<noteq> NaN \<Longrightarrow> b \<noteq> NaN \<Longrightarrow> \<not> num_lt a b \<Longrightarrow> num_ge a b"
  by (simp add: num_ge_def)

lemma insert_by_descending:
  assumes "insert_by (desc_by k) x ys = Inr zs"
    and "descending k ys"
    and "order_key k x \<noteq> NaN" and "\<forall>y \<in> set ys. order_key k y \<noteq> NaN"
  shows "descending k zs"
  using assms
proof (induction ys arbitrary: zs)
  case Nil
  then show ?case by (auto simp: descending_def)
next
  case (Cons y ys)
  from Cons.prems(1) obtain v where v: "desc_by k x y = Inr v"
    by (auto simp: bindE_Inr_iff)
  then have v': "v = num_sub (order_key k y) (order_key k x)" by (rule desc_by_value)
  have ky: "order_key k y \<noteq> NaN" using Cons.prems(4) by simp
  show ?case
  proof (cases "num_gt v (Fin 0)")
    case True
    with Cons.prems(1) v obtain ws where ws: "insert_by (desc_by k) x ys = Inr ws" "zs = y # ws"
      by (auto simp: bindE_Inr_iff)
    have d: "descending k ws"
      using Cons.IH [OF ws(1)] Cons.prems by (simp add: descending_def)
    have "num_lt (order_key k x) (order_key k y)"
      using True v' num_sub_pos [OF Cons.prems(3) ky] by simp
    then have "num_ge (order_key k y) (order_key k x)" by (rule num_lt_ge)
    moreover have "set ws = insert x (set ys)" using insert_by_set [OF ws(1)] by simp
    ultimately show ?thesis
      using d Cons.prems(2) ws(2) by (auto simp: descending_def)
  next
    case False
    with Cons.prems(1) v have zs: "zs = x # y # ys" by (auto simp: bindE_Inr_iff)
    have "\<not> num_lt (order_key k x) (order_key k y)"
      using False v' num_sub_pos [OF Cons.prems(3) ky] by simp
    then have xy: "num_ge (order_key k x) (order_key k y)"
      using not_num_lt_ge [OF Cons.prems(3) ky] by simp
    have "\<forall>w \<in> set ys. num_ge (order_key k x) (order_key k w)"
      using xy Cons.prems(2) by (auto simp: descending_def intro: num_ge_trans)
    then show ?thesis using xy Cons.prems(2) zs by (auto simp: descending_def)
  qed
qed

lemma sort_by_descending:
  assumes "sort_by (desc_by k) xs = Inr ys" and "\<forall>x \<in> set xs. order_key k x \<noteq> NaN"
  shows "descending k ys"
  using assms
proof (induction xs arbitrary: ys)
  case Nil
  then show ?case by (simp add: descending_def)
next
  case (Cons x xs)
  from Cons.prems(1) obtain ws where ws: "sort_by (desc_by k) xs = Inr ws"
      "insert_by (desc_by k) x ws = Inr ys"
    by (auto simp: bindE_Inr_iff)
  have "descending k ws" using Cons.IH [OF ws(1)] Cons.prems(2) by simp
  moreover have "set ws = set xs" using sort_by_set [OF ws(1)] by simp
  ultimately show ?case
    using insert_by_descending [OF ws(2)] Cons.prems(2) by simp
qed

lemma descending_slice: "descending k xs \<Longrightarrow> descending k (slice_list a b xs)"
  by (simp add: descending_def slice_list_def Let_def sorted_wrt_take sorted_wrt_drop)

lemma rel_index_0: "rel_index len (Fin 0) = 0"
  by (simp add: rel_index_def trunc_def)

lemma slice_list_length:
  "length (slice_list (Fin 0) (Some limit) xs) = rel_index (length xs) limit"
proof -
  have "rel_index (length xs) limit \<le> length xs"
    by (cases limit) (auto simp: rel_index_def)
  then show ?thesis by (simp add: slice_list_def Let_def rel_index_0)
qed

lemma slice_list_bound:
  assumes "num_ge limit (Fin 0)"
  shows "num_ge limit (Fin (of_nat (length (slice_list (Fin 0) (Some limit) xs))))"
proof (cases limit)
  case (Fin q)
  with assms have q: "0 \<le> q" by (simp add: num_ge_def)
  then have "of_nat (nat \<lfloor>q\<rfloor>) \<le> q"
    by (simp add: of_nat_nat)
  moreover have "(of_nat (min (nat \<lfloor>q\<rfloor>) (length xs)) :: rat) \<le> of_nat (nat \<lfloor>q\<rfloor>)"
    by simp
  ultimately have "(of_nat (min (nat \<lfloor>q\<rfloor>) (length xs)) :: rat) \<le> q" by linarith
  with Fin q show ?thesis
    by (simp add: slice_list_length rel_index_def trunc_def num_ge_def)
next
  case NaN
  with assms show ?thesis by (simp add: num_ge_def)
next
  case PInf
  then show ?thesis by (simp add: num_ge_def)
next
  case NInf
  with assms show ?thesis by (simp add: num_ge_def)
qed

lemma per_page_cap: "\<not> num_gt (top_coins_per_page limit) (Fin 100)"
  by (cases limit) (auto simp: top_coins_per_page_def math_min_def num_gt_def)

lemma descending_map_keys:
  "descending k xs \<longleftrightarrow> sorted_wrt num_ge (map (order_key k) xs)"
  by (simp add: descending_def sorted_wrt_map)

lemma descending_rows:
  assumes "mapE f ps = Inr rows" and "\<And>p row. f p = Inr row \<Longrightarrow> order_key k row = order_key k p"
    and "descending k ps"
  shows "descending k rows"
proof -
  have "list_all2 (\<lambda>p row. f p = Inr row) ps rows" using assms(1) by (rule mapE_Inr_all2)
  then have "list_all2 (\<lambda>p row. order_key k row = order_key k p) ps rows"
    by (rule list_all2_mono) (simp add: assms(2))
  then have "map (order_key k) rows = map (order_key k) ps"
    by (induction rule: list_all2_induct) simp_all
  with assms(3) show ?thesis by (simp add: descending_map_keys)
qed

lemma protocol_row_key: "protocol_row p = Inr row \<Longrightarrow> order_key ''tvl'' row = order_key ''tvl'' p"
  using protocol_row_fields(4) [of p row] by (simp add: order_key_def)

lemma getTopCryptoCoins_url:
  "getTopCryptoCoins net limit page = Inr res \<Longrightarrow>
     sourceUrls res = [getTopCoins_url ''usd'' (top_coins_per_page limit) page ''market_cap_desc'']"
  by (auto simp: getTopCryptoCoins_def bindE_Inr_iff getTopCoins_def formatToolResult_def
           dest: fetchJson_url)

section \<open>Evaluations of the tools on the example responses\<close>

lemma eval_top_protocols:
  "getTopDefiProtocols net_protocols (Fin 2) None None =
     Inr \<lparr>payload =
            JObj
             [(''protocols'',
               JArr
                [JObj
                  [(''name'', JStr ''Lido''), (''symbol'', JUndefined),
                   (''tvl'', JNum (Fin 300)),
                   (''tvl_change_1d'', JStr ''-0.33%''),
                   (''tvl_change_7d'', JStr ''undefined%''),
                   (''tvl_change_1m'', JStr ''undefined%''),
                   (''category'', JUndefined),
                   (''chains'', JArr [JStr ''Ethereum'']),
                   (''slug'', JUndefined)],
                 JObj
                  [(''name'', JStr ''Curve''), (''symbol'', JUndefined),
                   (''tvl'', JNum (Fin 200)),
                   (''tvl_change_1d'', JStr ''undefined%''),
                   (''tvl_change_7d'', JStr ''undefined%''),
                   (''tvl_change_1m'', JStr ''undefined%''),
                   (''category'', JUndefined), (''chains'', JUndefined),
                   (''slug'', JUndefined)]]),
              (''count'', JNum (Fin 2))],
          sourceUrls = [''https://api.llama.fi/protocols'']\<rparr>"
  by code_simp

lemma eval_yields:
  "getDefiYields net_pools None None None False (Fin 2) =
     Inr \<lparr>payload =
            JObj
             [(''pools'',
               JArr
                [JObj
                  [(''pool'', JStr ''p2''), (''symbol'', JUndefined),
                   (''project'', JStr ''lido''), (''chain'', JUndefined),
                   (''tvl_usd'', JUndefined), (''apy'', JStr ''12.00%''),
                   (''apy_base'', JStr ''4.00%''),
                   (''apy_reward'', JStr ''undefined%''),
                   (''stablecoin'', JUndefined), (''il_risk'', JUndefined)],
                 JObj
                  [(''pool'', JStr ''p1''), (''symbol'', JUndefined),
                   (''project'', JStr ''aave-v3''), (''chain'', JUndefined),
                   (''tvl_usd'', JUndefined), (''apy'', JStr ''3.50%''),
                   (''apy_base'', JStr ''undefined%''),
                   (''apy_reward'', JStr ''undefined%''),
                   (''stablecoin'', JUndefined), (''il_risk'', JUndefined)]]),
              (''count'', JNum (Fin 2))],
          sourceUrls = [''https://api.llama.fi/pools'']\<rparr>"
  by code_simp




section \<open>The percentage fields\<close>




section \<open>Rate limiting\<close>

text \<open>
  C3. For every URL, a response with status 429 makes \<open>fetchJson\<close> fail with the
  rate-limit error, whose message asks the user to wait and try again; every other
  status outside 200..299 fails with the upstream error, which carries the status and
  the status text and is never equal to the rate-limit error.
\<close>

theorem fetchJson_rate_limited_distinct:
  assumes "net u = Response status statusText body" and "\<not> response_ok status"
  shows "(status = 429 \<longrightarrow> fetchJson net u = Inl (Error rate_limit_message))
       \<and> (status \<noteq> 429 \<longrightarrow>
            fetchJson net u
              = Inl (Error (''API request failed: '' @ show_nat status @ '' '' @ statusText))
          \<and> fetchJson net u \<noteq> Inl (Error rate_limit_message))"
  using assms by (auto simp: fetchJson_def rate_limit_message_def)

theorem fetchJson_rate_limited_distinct_witness:
  "fetchJson (\<lambda>_. Response 429 ''Too Many Requests'' None) (COINGECKO_BASE @ ''/global'')
     = Inl (Error ''Rate limited by API. Please wait a moment and try again.'')
   \<and> fetchJson (\<lambda>_. Response 404 ''Not Found'' None) (DEFILLAMA_BASE @ ''/protocol/nope'')
     = Inl (Error ''API request failed: 404 Not Found'')
   \<and> fetchJson (\<lambda>_. Response 404 ''Not Found'' None) (DEFILLAMA_BASE @ ''/protocol/nope'')
     \<noteq> Inl (Error rate_limit_message)"
  using fetchJson_rate_limited_distinct
          [of "\<lambda>_. Response 429 ''Too Many Requests'' None" "COINGECKO_BASE @ ''/global''"
              429 "''Too Many Requests''" None]
        fetchJson_rate_limited_distinct
          [of "\<lambda>_. Response 404 ''Not Found'' None" "DEFILLAMA_BASE @ ''/protocol/nope''"
              404 "''Not Found''" None]
  by (simp add: response_ok_def rate_limit_message_def show_nat_def digits_small digits_step)

section \<open>Sorting and slicing tools\<close>

lemma eval_top_coins_null:
  "getTopCryptoCoins net_null (Fin 250) (Fin 1) =
     Inr \<lparr>payload = JObj [(''coins'', JArr []), (''count'', JNum (Fin 0))],
          sourceUrls =
            [''https://api.coingecko.com/api/v3/coins/markets?vs_currency=usd&order=market_cap_desc&per_page=100&page=1&sparkline=false&price_change_percentage=1h%2C24h%2C7d%2C30d'']\<rparr>"
  by code_simp

lemma protocols_keys_numeric:
  "\<forall>p \<in> set (array_items (upstream_body net_protocols getDefiProtocols_url)).
     order_key ''tvl'' p \<noteq> NaN"
  by code_simp

lemma pools_keys_numeric:
  "\<forall>p \<in> set (array_items (js_or (own_prop (upstream_body net_pools getYieldPools_url) ''data'')
                               (JArr []))).
     order_key ''apy'' p \<noteq> NaN"
  by code_simp

text \<open>
  C2, as amended. \<open>get_top_defi_protocols\<close> and \<open>get_defi_yields\<close> return at most \<open>limit\<close>
  entries whenever the requested limit is not negative. When the sort key of every
  upstream entry (\<open>tvl || 0\<close>, \<open>apy || 0\<close>) converts to a number, the returned protocols are
  in non-increasing order of \<open>tvl\<close>, and the returned pools are the rows of upstream pools
  taken in non-increasing order of \<open>apy\<close>. \<open>get_top_crypto_coins\<close> never asks upstream for
  more than 100 entries per page: the page size of its request is \<open>Math.min(limit, 100)\<close>.
\<close>

theorem top_n_sorted_and_bounded:
  "(getTopDefiProtocols net limit chain category = Inr r1 \<longrightarrow>
      (\<exists>rows. own_prop (payload r1) ''protocols'' = JArr rows
         \<and> (num_ge limit (Fin 0) \<longrightarrow> num_ge limit (Fin (of_nat (length rows))))
         \<and> ((\<forall>p \<in> set (array_items (upstream_body net getDefiProtocols_url)).
                order_key ''tvl'' p \<noteq> NaN)
              \<longrightarrow> descending ''tvl'' rows)))
 \<and> (getDefiYields net chain project min_tvl stablecoin_only limit = Inr r2 \<longrightarrow>
      (\<exists>pools rows. own_prop (payload r2) ''pools'' = JArr rows
         \<and> mapE pool_row pools = Inr rows
         \<and> set pools \<subseteq> set (array_items (js_or (own_prop (upstream_body net getYieldPools_url)
                                                      ''data'') (JArr [])))
         \<and> (num_ge limit (Fin 0) \<longrightarrow> num_ge limit (Fin (of_nat (length rows))))
         \<and> ((\<forall>p \<in> set (array_items (js_or (own_prop (upstream_body net getYieldPools_url)
                                                 ''data'') (JArr []))).
                order_key ''apy'' p \<noteq> NaN)
              \<longrightarrow> descending ''apy'' pools)))
 \<and> \<not> num_gt (top_coins_per_page limit) (Fin 100)
 \<and> (getTopCryptoCoins net limit page = Inr r3 \<longrightarrow>
      sourceUrls r3
        = [getTopCoins_url ''usd'' (top_coins_per_page limit) page ''market_cap_desc''])"
proof (intro conjI impI)
  assume "getTopDefiProtocols net limit chain category = Inr r1"
  then obtain upstream kept sorted rows where
    up: "upstream_body net getDefiProtocols_url = JArr upstream"
    and kept: "set kept \<subseteq> set upstream"
    and s: "sort_by (desc_by ''tvl'') kept = Inr sorted"
    and m: "mapE protocol_row (slice_list (Fin 0) (Some limit) sorted) = Inr rows"
    and r: "r1 = formatToolResult
                  (JObj [(''protocols'', JArr rows),
                         (''count'', JNum (Fin (of_nat (length rows))))])
                  [getDefiProtocols_url]"
    using getTopDefiProtocols_Inr by blast
  have len: "length rows = length (slice_list (Fin 0) (Some limit) sorted)"
    using m by (rule mapE_length)
  have bound: "num_ge limit (Fin (of_nat (length rows)))" if "num_ge limit (Fin 0)"
    using slice_list_bound [OF that] len by simp
  have sorted: "descending ''tvl'' rows"
    if "\<forall>p \<in> set (array_items (upstream_body net getDefiProtocols_url)). order_key ''tvl'' p \<noteq> NaN"
  proof -
    from that up kept have "\<forall>p \<in> set kept. order_key ''tvl'' p \<noteq> NaN"
      by (auto simp: array_items_def)
    then have "descending ''tvl'' sorted" using sort_by_descending [OF s] by simp
    then have "descending ''tvl'' (slice_list (Fin 0) (Some limit) sorted)"
      by (rule descending_slice)
    then show ?thesis using descending_rows [OF m] protocol_row_key by blast
  qed
  show "\<exists>rows. own_prop (payload r1) ''protocols'' = JArr rows
         \<and> (num_ge limit (Fin 0) \<longrightarrow> num_ge limit (Fin (of_nat (length rows))))
         \<and> ((\<forall>p \<in> set (array_items (upstream_body net getDefiProtocols_url)).
                order_key ''tvl'' p \<noteq> NaN)
              \<longrightarrow> descending ''tvl'' rows)"
    using r bound sorted by (intro exI [of _ rows]) (simp add: formatToolResult_def)
next
  assume "getDefiYields net chain project min_tvl stablecoin_only limit = Inr r2"
  then obtain upstream kept sorted rows where
    up: "js_or (own_prop (upstream_body net getYieldPools_url) ''data'') (JArr []) = JArr upstream"
    and kept: "set kept \<subseteq> set upstream"
    and s: "sort_by (desc_by ''apy'') kept = Inr sorted"
    and m: "mapE pool_row (slice_list (Fin 0) (Some limit) sorted) = Inr rows"
    and r: "r2 = formatToolResult
                  (JObj [(''pools'', JArr rows),
                         (''count'', JNum (Fin (of_nat (length rows))))])
                  [getYieldPools_url]"
    using getDefiYields_Inr by blast
  let ?sel = "slice_list (Fin 0) (Some limit) sorted"
  have len: "length rows = length ?sel" using m by (rule mapE_length)
  have bound: "num_ge limit (Fin (of_nat (length rows)))" if "num_ge limit (Fin 0)"
    using slice_list_bound [OF that] len by simp
  have "set ?sel \<subseteq> set sorted"
    by (auto simp: slice_list_def Let_def dest: in_set_takeD in_set_dropD)
  then have sub: "set ?sel \<subseteq> set upstream" using sort_by_set [OF s] kept by auto
  have sorted: "descending ''apy'' ?sel"
    if "\<forall>p \<in> set (array_items (js_or (own_prop (upstream_body net getYieldPools_url) ''data'')
                                       (JArr []))). order_key ''apy'' p \<noteq> NaN"
  proof -
    from that up kept have "\<forall>p \<in> set kept. order_key ''apy'' p \<noteq> NaN"
      by (auto simp: array_items_def)
    then have "descending ''apy'' sorted" using sort_by_descending [OF s] by simp
    then show ?thesis by (rule descending_slice)
  qed
  show "\<exists>pools rows. own_prop (payload r2) ''pools'' = JArr rows
         \<and> mapE pool_row pools = Inr rows
         \<and> set pools \<subseteq> set (array_items (js_or (own_prop (upstream_body net getYieldPools_url)
                                                      ''data'') (JArr [])))
         \<and> (num_ge limit (Fin 0) \<longrightarrow> num_ge limit (Fin (of_nat (length rows))))
         \<and> ((\<forall>p \<in> set (array_items (js_or (own_prop (upstream_body net getYieldPools_url)
                                                 ''data'') (JArr []))).
                order_key ''apy'' p \<noteq> NaN)
              \<longrightarrow> descending ''apy'' pools)"
    using r m sub up bound sorted
    by (intro exI [of _ ?sel] exI [of _ rows]) (simp add: formatToolResult_def array_items_def)
next
  show "\<not> num_gt (top_coins_per_page limit) (Fin 100)" by (rule per_page_cap)
next
  assume "getTopCryptoCoins net limit page = Inr r3"
  then show "sourceUrls r3
        = [getTopCoins_url ''usd'' (top_coins_per_page limit) page ''market_cap_desc'']"
    by (rule getTopCryptoCoins_url)
qed

theorem top_n_sorted_and_bounded_witness:
  "(\<exists>rows. result_field ''protocols'' (getTopDefiProtocols net_protocols (Fin 2) None None)
             = Some (JArr rows)
          \<and> num_ge (Fin 2) (Fin (of_nat (length rows)))
          \<and> descending ''tvl'' rows)
 \<and> (\<exists>pools rows. result_field ''pools'' (getDefiYields net_pools None None None False (Fin 2))
                   = Some (JArr rows)
          \<and> mapE pool_row pools = Inr rows
          \<and> num_ge (Fin 2) (Fin (of_nat (length rows)))
          \<and> descending ''apy'' pools)
 \<and> top_coins_per_page (Fin 250) = Fin 100
 \<and> \<not> num_gt (top_coins_per_page (Fin 250)) (Fin 100)
 \<and> map_option sourceUrls
      (case getTopCryptoCoins net_null (Fin 250) (Fin 1) of Inr r \<Rightarrow> Some r | Inl e \<Rightarrow> None)
     = Some [getTopCoins_url ''usd'' (Fin 100) (Fin 1) ''market_cap_desc'']"
proof -
  note t = top_n_sorted_and_bounded
  have pos: "num_ge (Fin 2) (Fin 0)" by (simp add: num_ge_def)
  have a: "\<exists>rows. result_field ''protocols'' (getTopDefiProtocols net_protocols (Fin 2) None None)
             = Some (JArr rows)
          \<and> num_ge (Fin 2) (Fin (of_nat (length rows)))
          \<and> descending ''tvl'' rows"
    using t [THEN conjunct1, rule_format, OF eval_top_protocols] pos protocols_keys_numeric
    by (simp add: result_field_def eval_top_protocols)
  have b: "\<exists>pools rows. result_field ''pools'' (getDefiYields net_pools None None None False (Fin 2))
                   = Some (JArr rows)
          \<and> mapE pool_row pools = Inr rows
          \<and> num_ge (Fin 2) (Fin (of_nat (length rows)))
          \<and> descending ''apy'' pools"
    using t [THEN conjunct2, THEN conjunct1, rule_format, OF eval_yields] pos pools_keys_numeric
    by (simp add: result_field_def eval_yields) blast
  have c: "top_coins_per_page (Fin 250) = Fin 100"
    by (simp add: top_coins_per_page_def math_min_def)
  have d: "\<not> num_gt (top_coins_per_page (Fin 250)) (Fin 100)"
    using t [THEN conjunct2, THEN conjunct2, THEN conjunct1] .
  have e: "map_option sourceUrls
      (case getTopCryptoCoins net_null (Fin 250) (Fin 1) of Inr r \<Rightarrow> Some r | Inl e \<Rightarrow> None)
     = Some [getTopCoins_url ''usd'' (Fin 100) (Fin 1) ''market_cap_desc'']"
    using t [THEN conjunct2, THEN conjunct2, THEN conjunct2, rule_format, OF eval_top_coins_null] c
    by (simp add: eval_top_coins_null)
  from a b c d e show ?thesis by blast
qed

text \<open>
  The claim as stated fails for a negative limit: \<open>slice(0, -1)\<close> drops the last entry
  only, so that three upstream protocols give two entries.
\<close>

theorem top_n_bounded_counterexample:
  "row_count ''protocols'' (getTopDefiProtocols net_protocols (Fin (- 1)) None None) = Some 2
   \<and> \<not> num_ge (Fin (- 1)) (Fin (of_nat 2))"
proof -
  have "row_count ''protocols'' (getTopDefiProtocols net_protocols (Fin (- 1)) None None) = Some 2"
    by code_simp
  then show ?thesis by (simp add: num_ge_def)
qed

section \<open>The comparison tool\<close>












section \<open>Trending tokens\<close>










section \<open>Bitcoin dominance\<close>

lemma toFixed_two_decimals:
  assumes "\<bar>x\<bar> < 10 ^ 21"
  shows "toFixed 2 (Fin x) = two_decimals x"
proof -
  let ?n = "hundredths x"
  let ?m = "digits_of ?n"
  let ?m' = "replicate (Suc 2 - length ?m) (CHR ''0'') @ ?m"
  have n0: "0 \<le> ?n" by (simp add: hundredths_def)
  have split: "take (length ?m' - 2) ?m' = digits_of (?n div 100)
             \<and> drop (length ?m' - 2) ?m'
                 = [''0123456789'' ! nat (?n div 10 mod 10), ''0123456789'' ! nat (?n mod 10)]"
  proof -
    consider "?n < 10" | "10 \<le> ?n" "?n < 100" | "100 \<le> ?n" by linarith
    then show ?thesis
    proof cases
      case 1
      then have "?m = [''0123456789'' ! nat ?n]" by (rule digits_small)
      moreover from 1 n0 have "?n div 100 = 0" "?n div 10 mod 10 = 0" "?n mod 10 = ?n"
        by simp_all
      ultimately show ?thesis by (simp add: digits_small)
    next
      case 2
      then have "?n div 10 < 10" by simp
      then have "?m = [''0123456789'' ! nat (?n div 10), ''0123456789'' ! nat (?n mod 10)]"
        using 2(1) by (simp add: digits_step digits_small)
      moreover from 2 n0 have "?n div 100 = 0" "?n div 10 mod 10 = ?n div 10"
        by simp_all
      ultimately show ?thesis by (simp add: digits_small)
    next
      case 3
      then have "10 \<le> ?n" "10 \<le> ?n div 10" by simp_all
      moreover have "?n div 10 div 10 = ?n div 100"
        by (simp add: zdiv_zmult2_eq [symmetric])
      ultimately have m: "?m = digits_of (?n div 100)
                       @ [''0123456789'' ! nat (?n div 10 mod 10), ''0123456789'' ! nat (?n mod 10)]"
        by (simp add: digits_step [of ?n] digits_step [of "?n div 10"])
      have "Suc 0 \<le> length (digits_of (?n div 100))"
        using digits_nonempty [of "?n div 100"] by (cases "digits_of (?n div 100)") simp_all
      then have "Suc 2 - length ?m = 0" by (subst m) simp
      then have "?m' = ?m" by simp
      then show ?thesis by (subst (1 2 3 4) m) (simp add: m)
    qed
  qed
  have "\<not> 10 ^ 21 \<le> \<bar>x\<bar>" using assms by simp
  then show ?thesis
    using split
    by (simp add: toFixed_def two_decimals_def Let_def hundredths_def)
qed

lemma two_decimals_example:
  assumes "54315 / 1000 \<le> x" and "x < 54325 / 1000"
  shows "two_decimals x = ''54.32''"
proof -
  have "\<lfloor>\<bar>x\<bar> * 100 + 1 / 2\<rfloor> = 5432"
    using assms by (intro floor_unique) simp_all
  then have "hundredths x = 5432" by (simp add: hundredths_def)
  moreover have "digits_of 54 = ''54''" by (simp add: digits_small digits_step)
  ultimately show ?thesis using assms by (simp add: two_decimals_def)
qed

lemma getGlobalCryptoData_btc:
  assumes "getGlobalCryptoData net = Inr res"
  shows "pct (js_get_opt (own_prop (own_prop (upstream_body net getGlobalMarketData_url) ''data'')
                            ''market_cap_percentage'') ''btc'')
           = Inr (own_prop (payload res) ''btc_dominance'')"
proof -
  from assms obtain r d result where
    r: "getGlobalMarketData net = Inr r"
    and d: "js_get (data r) ''data'' = Inr d"
    and o: "js_object
              [(''active_cryptocurrencies'', js_get d ''active_cryptocurrencies''),
               (''markets'', js_get d ''markets''),
               (''total_market_cap_usd'',
                  bindE (js_get d ''total_market_cap'') (\<lambda>x. Inr (js_get_opt x ''usd''))),
               (''total_volume_24h_usd'',
                  bindE (js_get d ''total_volume'') (\<lambda>x. Inr (js_get_opt x ''usd''))),
               (''btc_dominance'',
                  bindE (js_get d ''market_cap_percentage'') (\<lambda>x. pct (js_get_opt x ''btc''))),
               (''eth_dominance'',
                  bindE (js_get d ''market_cap_percentage'') (\<lambda>x. pct (js_get_opt x ''eth''))),
               (''market_cap_change_24h'',
                  bindE (js_get d ''market_cap_change_percentage_24h_usd'') pct)] = Inr result"
    and res: "res = formatToolResult result [url r]"
    unfolding getGlobalCryptoData_def by (auto simp: bindE_Inr_iff)
  from r have b: "data r = upstream_body net getGlobalMarketData_url"
    by (simp add: getGlobalMarketData_def fetchJson_body)
  from d b have d': "d = own_prop (upstream_body net getGlobalMarketData_url) ''data''"
    by (auto simp: js_get_def split: if_splits)
  from o have "pct (js_get_opt (own_prop d ''market_cap_percentage'') ''btc'')
                 = Inr (own_prop result ''btc_dominance'')"
    by (auto simp: js_object_def bindE_Inr_iff js_get_def split: if_splits)
  with d' res show ?thesis by (simp add: formatToolResult_def)
qed

lemma eval_global:
  "getGlobalCryptoData net_global =
     Inr \<lparr>payload =
            JObj
             [(''active_cryptocurrencies'', JNum (Fin 17000)),
              (''markets'', JNum (Fin 1200)),
              (''total_market_cap_usd'', JUndefined),
              (''total_volume_24h_usd'', JUndefined),
              (''btc_dominance'', JStr ''54.32%''),
              (''eth_dominance'', JStr ''17.50%''),
              (''market_cap_change_24h'', JStr ''-0.88%'')],
          sourceUrls = [''https://api.coingecko.com/api/v3/global'']\<rparr>"
  by code_simp

lemma global_upstream_btc:
  "js_get_opt (own_prop (own_prop (upstream_body net_global getGlobalMarketData_url) ''data'')
                 ''market_cap_percentage'') ''btc'' = JNum (Fin (543189 / 10000))"
  by (simp add: net_global_def ok_json_def upstream_body_def js_get_opt_def nullish_def)

text \<open>
  C6, as amended. Whenever the upstream response carries a number as
  \<open>data.market_cap_percentage.btc\<close>, of magnitude below \<open>10\<^sup>2\<^sup>1\<close>, \<open>get_global_crypto_data\<close>
  renders \<open>btc_dominance\<close> as that number rounded to the nearest hundredth and written with
  exactly two decimals, followed by \<open>%\<close>. In particular every value from \<open>54.315\<close> up to,
  but not including, \<open>54.325\<close> (so \<open>54.3189\<close>, and the double nearest to it) gives \<open>54.32%\<close>.
\<close>

theorem btc_dominance_two_decimals:
  assumes "getGlobalCryptoData net = Inr res"
    and "js_get_opt (own_prop (own_prop (upstream_body net getGlobalMarketData_url) ''data'')
                       ''market_cap_percentage'') ''btc'' = JNum (Fin x)"
    and "\<bar>x\<bar> < 10 ^ 21"
  shows "own_prop (payload res) ''btc_dominance'' = JStr (two_decimals x @ ''%'')
       \<and> (54315 / 1000 \<le> x \<and> x < 54325 / 1000
            \<longrightarrow> own_prop (payload res) ''btc_dominance'' = JStr ''54.32%'')"
proof -
  have "pct (JNum (Fin x)) = Inr (JStr (toFixed 2 (Fin x) @ ''%''))"
    by (simp add: pct_def nullish_def call_toFixed_def js_plus_str_def)
  with getGlobalCryptoData_btc [OF assms(1)] assms(2)
  have "own_prop (payload res) ''btc_dominance'' = JStr (toFixed 2 (Fin x) @ ''%'')" by simp
  then have "own_prop (payload res) ''btc_dominance'' = JStr (two_decimals x @ ''%'')"
    using toFixed_two_decimals [OF assms(3)] by simp
  then show ?thesis using two_decimals_example [of x] by simp
qed

theorem btc_dominance_two_decimals_witness:
  "result_field ''btc_dominance'' (getGlobalCryptoData net_global)
     = Some (JStr (two_decimals (543189 / 10000) @ ''%''))
   \<and> result_field ''btc_dominance'' (getGlobalCryptoData net_global) = Some (JStr ''54.32%'')"
  using btc_dominance_two_decimals [OF eval_global global_upstream_btc]
  by (simp add: result_field_def eval_global)

text \<open>
  The claim as stated fails for an upstream response without the percentage: the field is
  then the string \<open>undefined%\<close>.
\<close>

theorem btc_dominance_counterexample:
  "js_get_opt (own_prop (own_prop (upstream_body net_global_bare getGlobalMarketData_url) ''data'')
                 ''market_cap_percentage'') ''btc'' = JUndefined
   \<and> result_field ''btc_dominance'' (getGlobalCryptoData net_global_bare)
       = Some (JStr ''undefined%'')"
proof -
  have "result_field ''btc_dominance'' (getGlobalCryptoData net_global_bare)
          = Some (JStr ''undefined%'')"
    by code_simp
  then show ?thesis
    by (simp add: net_global_bare_def ok_json_def upstream_body_def js_get_opt_def nullish_def)
qed

section \<open>Percent-encoding of request URLs\<close>

text \<open>
  C7. Every API client function percent-encodes the strings the caller supplies before
  they enter the request URL. \<open>searchTokens\<close> does so; \<open>getTokenOHLC\<close> encodes its \<open>id\<close> but
  writes \<open>vs_currency\<close> into the URL as it is, so that a currency \<open>usd&days=1\<close> adds a
  parameter of its own to the query instead of arriving as \<open>usd%26days%3D1\<close>.
\<close>

theorem getTokenOHLC_vs_currency_not_encoded:
  "searchTokens_url ''usd&days=1''
     = ''https://api.coingecko.com/api/v3/search?query=usd%26days%3D1''
   \<and> encodeURIComponent ''usd&days=1'' = ''usd%26days%3D1''
   \<and> getTokenOHLC_url ''bit coin'' ''usd&days=1'' (Fin 30)
       = ''https://api.coingecko.com/api/v3/coins/bit%20coin/ohlc?vs_currency=usd&days=1&days=30''
   \<and> getTokenOHLC_url ''bit coin'' ''usd&days=1'' (Fin 30)
       \<noteq> COINGECKO_BASE @ ''/coins/'' @ encodeURIComponent ''bit coin'' @ ''/ohlc?vs_currency=''
           @ encodeURIComponent ''usd&days=1'' @ ''&days='' @ encodeURIComponent (num_to_string (Fin 30))"
  by (simp add: searchTokens_url_def getTokenOHLC_url_def COINGECKO_BASE_def
        encodeURIComponent_def uri_unreserved_def is_alnum_def hex_byte_def
        num_to_string_def digits_small digits_step)

section \<open>Missing upstream fields\<close>

text \<open>
  C9. No tool fails on an upstream value that lacks expected fields. The code breaks this:
  \<open>get_crypto_fear_greed\<close> reads the timestamp with optional chaining, but then formats
  \<open>new Date(NaN)\<close>, which raises a \<open>RangeError\<close>, both when the \<open>data\<close> array is absent and
  when its first entry has no timestamp; \<open>get_global_crypto_data\<close> raises a \<open>TypeError\<close>
  when the response has no \<open>data\<close> object, although it tolerates an empty one.
\<close>

theorem missing_fields_raise:
  "getCryptoFearGreed net_empty_object = Inl RangeError
   \<and> getCryptoFearGreed net_fear_greed_no_timestamp = Inl RangeError
   \<and> getGlobalCryptoData net_empty_object = Inl TypeError
   \<and> result_field ''btc_dominance'' (getGlobalCryptoData net_global_bare)
       = Some (JStr ''undefined%'')"
proof -
  have "getCryptoFearGreed net_empty_object = Inl RangeError" by code_simp
  moreover have "getCryptoFearGreed net_fear_greed_no_timestamp = Inl RangeError" by code_simp
  moreover have "getGlobalCryptoData net_empty_object = Inl TypeError" by code_simp
  moreover have "result_field ''btc_dominance'' (getGlobalCryptoData net_global_bare)
       = Some (JStr ''undefined%'')" by code_simp
  ultimately show ?thesis by simp
qed


end
